theory Spec2Isabelle
  imports Complex_Main
begin

section \<open>Tensors\<close>

text \<open>
  A tensor is a nested list of reals, outermost dimension first: a tensor of shape
  \<open>[B, G]\<close> is a list of \<open>B\<close> rows of \<open>G\<close> entries. Arithmetic is exact (real numbers);
  rounding is not part of the model.
\<close>

type_synonym tensor1 = "real list"
type_synonym tensor2 = "real list list"
type_synonym tensor3 = "real list list list"
type_synonym tensor4 = "real list list list list"
type_synonym tensor5 = "real list list list list list"

text \<open>\<^verbatim>\<open>x.mean()\<close> of a non-empty one-dimensional tensor.\<close>

definition mean :: "tensor1 \<Rightarrow> real" where
  "mean xs = sum_list xs / real (length xs)"

text \<open>\<^verbatim>\<open>x.mean()\<close> of a non-empty two-dimensional tensor: the mean of all its entries.\<close>

definition mean_all :: "tensor2 \<Rightarrow> real" where
  "mean_all xss = mean (concat xss)"

text \<open>Elementwise binary operation on two tensors of the same two-dimensional shape.\<close>

definition zip_with2 :: "(real \<Rightarrow> real \<Rightarrow> real) \<Rightarrow> tensor2 \<Rightarrow> tensor2 \<Rightarrow> tensor2" where
  "zip_with2 f xss yss = map2 (map2 f) xss yss"

text \<open>\<^verbatim>\<open>torch.clamp(x, min=lo, max=hi)\<close> on one entry.\<close>

definition clamp :: "real \<Rightarrow> real \<Rightarrow> real \<Rightarrow> real" where
  "clamp x lo hi = min (max x lo) hi"

section \<open>GRPO loss (GRPO.py, \<^verbatim>\<open>DPR_GRPO.forward_and_get_loss\<close>, step 7 and 8)\<close>

text \<open>
  \<^verbatim>\<open>group_mean = rewards.mean(dim=1, keepdim=True)\<close> on rewards of shape \<open>[B, G]\<close>:
  one mean per batch element.
\<close>

definition group_mean :: "tensor2 \<Rightarrow> tensor1" where
  "group_mean rewards = map mean rewards"

text \<open>\<^verbatim>\<open>advantages = rewards - group_mean\<close>, the mean broadcast along the group.\<close>

definition advantages :: "tensor2 \<Rightarrow> tensor2" where
  "advantages rewards = map2 (\<lambda>row m. map (\<lambda>r. r - m) row) rewards (group_mean rewards)"

text \<open>\<^verbatim>\<open>log_ratios = torch.log(torch.clamp(ratios, min=1e-8, max=10))\<close>.\<close>

definition log_ratios :: "tensor2 \<Rightarrow> tensor2" where
  "log_ratios ratios = map (map (\<lambda>r. ln (clamp r (1 / 10 ^ 8) 10))) ratios"

text \<open>\<^verbatim>\<open>policy_loss = -(advantages * log_ratios).mean()\<close>.\<close>

definition policy_loss :: "tensor2 \<Rightarrow> tensor2 \<Rightarrow> real" where
  "policy_loss rewards ratios =
     - mean_all (zip_with2 (*) (advantages rewards) (log_ratios ratios))"

text \<open>\<^verbatim>\<open>kl_div = (ratios - 1 - log_ratios).mean()\<close>.\<close>

definition kl_div :: "tensor2 \<Rightarrow> real" where
  "kl_div ratios = mean_all (zip_with2 (\<lambda>r l. r - 1 - l) ratios (log_ratios ratios))"

text \<open>\<^verbatim>\<open>kl_penalty = self.beta * kl_div\<close>.\<close>

definition kl_penalty :: "real \<Rightarrow> tensor2 \<Rightarrow> real" where
  "kl_penalty beta ratios = beta * kl_div ratios"

text \<open>\<^verbatim>\<open>total_loss = policy_loss + kl_penalty\<close>.\<close>

definition grpo_total_loss :: "real \<Rightarrow> tensor2 \<Rightarrow> tensor2 \<Rightarrow> real" where
  "grpo_total_loss beta rewards ratios = policy_loss rewards ratios + kl_penalty beta ratios"

text \<open>
  The formulas of the specification, for comparison with the code: the policy term
  \<^verbatim>\<open>-mean(advantage * log(clamp(ratio, 1e-8, 10)))\<close>, and the KL term
  \<^verbatim>\<open>mean(ratio - 1 - log(ratio))\<close> read with the logarithm of the ratio as it is, not
  clamped.
\<close>

definition policy_loss_spec :: "tensor2 \<Rightarrow> tensor2 \<Rightarrow> real" where
  "policy_loss_spec rewards ratios =
     - mean_all (zip_with2 (\<lambda>a r. a * ln (clamp r (1 / 10 ^ 8) 10)) (advantages rewards) ratios)"

definition kl_div_unclamped :: "tensor2 \<Rightarrow> real" where
  "kl_div_unclamped ratios = mean_all (map (map (\<lambda>r. r - 1 - ln r)) ratios)"

definition total_loss_unclamped :: "real \<Rightarrow> tensor2 \<Rightarrow> tensor2 \<Rightarrow> real" where
  "total_loss_unclamped beta rewards ratios =
     policy_loss_spec rewards ratios + beta * kl_div_unclamped ratios"

text \<open>The shape predicate: \<open>B\<close> rows of \<open>G\<close> entries each.\<close>

definition rect :: "'a list list \<Rightarrow> nat \<Rightarrow> nat \<Rightarrow> bool" where
  "rect xss B G \<longleftrightarrow> length xss = B \<and> (\<forall>row\<in>set xss. length row = G)"

section \<open>GRPO action fidelity and ratio (GRPO.py, \<^verbatim>\<open>DPR_GRPO.forward_and_get_loss\<close>, step 6)\<close>

type_synonym mask2 = "bool list list"
type_synonym mask3 = "bool list list list"

text \<open>
  \<^verbatim>\<open>F.mse_loss(x, y, reduction='none')\<close>: the squared difference of every entry, here
  on tensors of shape \<open>[A, T, D]\<close> (one batch element) and \<open>[B, A, T, D]\<close>.
\<close>

definition sq_err3 :: "tensor3 \<Rightarrow> tensor3 \<Rightarrow> tensor3" where
  "sq_err3 x y = map2 (map2 (map2 (\<lambda>u v. (u - v)\<^sup>2))) x y"

definition mse_loss_none :: "tensor4 \<Rightarrow> tensor4 \<Rightarrow> tensor4" where
  "mse_loss_none x y = map2 sq_err3 x y"

text \<open>
  \<^verbatim>\<open>action_diff * gt_actions_valid.unsqueeze(-1)\<close>: the validity flag of shape
  \<open>[B, A, T]\<close> is broadcast over the last dimension; \<open>True\<close> counts as 1, \<open>False\<close> as 0.
\<close>

definition mul_valid3 :: "tensor3 \<Rightarrow> mask2 \<Rightarrow> tensor3" where
  "mul_valid3 x v = map2 (map2 (\<lambda>row m. map (\<lambda>u. u * of_bool m) row)) x v"

definition mul_valid :: "tensor4 \<Rightarrow> mask3 \<Rightarrow> tensor4" where
  "mul_valid x v = map2 mul_valid3 x v"

text \<open>\<^verbatim>\<open>x.mean(dim=(1, 2, 3))\<close>: one mean per batch element, over all its entries.\<close>

definition mean3 :: "tensor3 \<Rightarrow> real" where
  "mean3 x = mean (concat (concat x))"

definition mean_dims_123 :: "tensor4 \<Rightarrow> tensor1" where
  "mean_dims_123 x = map mean3 x"

text \<open>
  The body of the loop over \<open>g\<close>, for the actions of one policy:
  \<^verbatim>\<open>action_diff = F.mse_loss(denoised_actions[g], gt_actions_normalized, reduction='none')\<close>,
  \<^verbatim>\<open>action_diff = action_diff * gt_actions_valid.unsqueeze(-1)\<close>,
  \<^verbatim>\<open>action_diff = action_diff.mean(dim=(1, 2, 3))\<close>.
\<close>

definition action_diff :: "tensor4 \<Rightarrow> tensor4 \<Rightarrow> mask3 \<Rightarrow> tensor1" where
  "action_diff denoised_actions_g gt_actions_normalized gt_actions_valid =
     mean_dims_123 (mul_valid (mse_loss_none denoised_actions_g gt_actions_normalized)
                              gt_actions_valid)"

text \<open>The loop over \<open>g\<close> followed by \<^verbatim>\<open>torch.stack(..., dim=0)\<close>: shape \<open>[G, B]\<close>.\<close>

definition action_differences :: "tensor5 \<Rightarrow> tensor4 \<Rightarrow> mask3 \<Rightarrow> tensor2" where
  "action_differences denoised_actions gt_actions_normalized gt_actions_valid =
     map (\<lambda>d. action_diff d gt_actions_normalized gt_actions_valid) denoised_actions"

text \<open>
  \<^verbatim>\<open>ref_diff = action_differences_old\<close>,
  \<^verbatim>\<open>ratios = torch.exp(ref_diff - action_differences)\<close>, of shape \<open>[G, B]\<close>.
\<close>

definition grpo_ratios :: "tensor5 \<Rightarrow> tensor5 \<Rightarrow> tensor4 \<Rightarrow> mask3 \<Rightarrow> tensor2" where
  "grpo_ratios denoised_actions denoised_actions_old gt_actions_normalized gt_actions_valid =
     (let diffs = action_differences denoised_actions gt_actions_normalized gt_actions_valid;
          diffs_old = action_differences denoised_actions_old gt_actions_normalized
                        gt_actions_valid;
          ref_diff = diffs_old
      in zip_with2 (\<lambda>r c. exp (r - c)) ref_diff diffs)"

text \<open>Shape predicate for one batch element: \<open>A\<close> agents, \<open>T\<close> steps, \<open>D\<close> channels.\<close>

definition shape3 :: "'a list list list \<Rightarrow> nat \<Rightarrow> nat \<Rightarrow> nat \<Rightarrow> bool" where
  "shape3 x A T D \<longleftrightarrow> length x = A \<and> (\<forall>xa\<in>set x. rect xa T D)"

section \<open>GRPO candidate group (GRPO.py, \<^verbatim>\<open>DPR_GRPO.forward_and_get_loss\<close>, step 3)\<close>

type_synonym steps2 = "nat list list"
type_synonym steps4 = "nat list list list list"

text \<open>
  \<^verbatim>\<open>torch.randint(0, num_steps, (B,)).long().unsqueeze(-1).repeat(1, A).view(B, A, 1, 1)\<close>.
  The \<open>B\<close> values drawn by \<^verbatim>\<open>randint\<close> are the argument \<open>draws\<close>;
  \<^verbatim>\<open>unsqueeze(-1)\<close> wraps each value in a row of length 1, \<^verbatim>\<open>repeat(1, A)\<close>
  tiles that row \<open>A\<close> times, the view gives every entry two trailing dimensions of size 1.
\<close>

definition diffusion_steps :: "nat list \<Rightarrow> nat \<Rightarrow> steps4" where
  "diffusion_steps draws A =
     map (map (\<lambda>t. [[t]])) (map (\<lambda>row. concat (replicate A row)) (map (\<lambda>t. [t]) draws))"

text \<open>\<^verbatim>\<open>x.unsqueeze(0).repeat(G, 1, ..., 1)\<close>: a new leading dimension, tiled \<open>G\<close> times.\<close>

definition repeat_group :: "nat \<Rightarrow> 'a \<Rightarrow> 'a list" where
  "repeat_group G x = concat (replicate G [x])"

text \<open>\<^verbatim>\<open>s.view(B, A)\<close> of a tensor of shape \<open>[B, A, 1, 1]\<close>.\<close>

definition view_BA :: "steps4 \<Rightarrow> steps2" where
  "view_BA s = map (map (\<lambda>c. hd (concat c))) s"

text \<open>
  The loop \<^verbatim>\<open>for _ in range(G)\<close> that draws \<^verbatim>\<open>noise = torch.randn(B, A, T, D)\<close> and
  appends \<^verbatim>\<open>self.noise_scheduler.add_noise(gt_actions_normalized, noise, diffusion_steps)\<close>.
  The draw of iteration \<open>g\<close> is \<open>randn g\<close>; the scheduler's \<^verbatim>\<open>add_noise\<close> is a
  parameter.
\<close>

definition noised_action_list ::
  "(tensor4 \<Rightarrow> tensor4 \<Rightarrow> steps4 \<Rightarrow> tensor4) \<Rightarrow> tensor4 \<Rightarrow> (nat \<Rightarrow> tensor4) \<Rightarrow> nat \<Rightarrow> steps4
     \<Rightarrow> tensor4 list" where
  "noised_action_list add_noise gt_actions_normalized randn G steps =
     map (\<lambda>g. add_noise gt_actions_normalized (randn g) steps) [0..<G]"

text \<open>
  The arguments of the \<open>G\<close> calls
  \<^verbatim>\<open>self.forward_denoiser({k: v[g] ...}, noised_action_normalized[g], diffusion_steps_g[g].view(B, A), agents_future_41_g[g])\<close>
  after the inputs were expanded with \<^verbatim>\<open>unsqueeze(0).repeat(G, ...)\<close>.
\<close>

definition denoiser_call_args ::
  "nat \<Rightarrow> 'enc \<Rightarrow> tensor4 list \<Rightarrow> steps4 \<Rightarrow> tensor4 \<Rightarrow> ('enc \<times> tensor4 \<times> steps2 \<times> tensor4) list" where
  "denoiser_call_args G encoder_outputs noised_action_normalized steps agents_future_41 =
     (let diffusion_steps_g = repeat_group G steps;
          agents_future_41_g = repeat_group G agents_future_41;
          encoder_outputs_g = repeat_group G encoder_outputs
      in map (\<lambda>g. (encoder_outputs_g ! g, noised_action_normalized ! g,
                    view_BA (diffusion_steps_g ! g), agents_future_41_g ! g)) [0..<G])"

section \<open>Scalar results of tensor arithmetic\<close>

text \<open>
  The value of a zero-dimensional tensor: a real number, or one of the special values that
  a division by zero yields. Entries of the input tensors are real numbers.
\<close>

datatype tval = Fin real | PInf | NInf | NaN

text \<open>
  \<^verbatim>\<open>x / y\<close> on two scalar tensors: a zero denominator gives an infinity of the sign of
  the numerator, and \<open>0 / 0\<close> gives \<open>NaN\<close>; no exception is raised.
\<close>

definition tdiv :: "real \<Rightarrow> real \<Rightarrow> tval" where
  "tdiv x y = (if y \<noteq> 0 then Fin (x / y)
               else if 0 < x then PInf else if x < 0 then NInf else NaN)"

fun tadd :: "tval \<Rightarrow> tval \<Rightarrow> tval" where
  "tadd (Fin x) (Fin y) = Fin (x + y)"
| "tadd NaN _ = NaN"
| "tadd _ NaN = NaN"
| "tadd PInf NInf = NaN"
| "tadd NInf PInf = NaN"
| "tadd PInf _ = PInf"
| "tadd _ PInf = PInf"
| "tadd NInf _ = NInf"
| "tadd _ NInf = NInf"

text \<open>\<^verbatim>\<open>c * x\<close> for a Python float \<open>c\<close> and a scalar tensor \<open>x\<close>.\<close>

fun tscale :: "real \<Rightarrow> tval \<Rightarrow> tval" where
  "tscale c (Fin x) = Fin (c * x)"
| "tscale c NaN = NaN"
| "tscale c PInf = (if 0 < c then PInf else if c < 0 then NInf else NaN)"
| "tscale c NInf = (if 0 < c then NInf else if c < 0 then PInf else NaN)"

section \<open>Supervised losses (DPR.py)\<close>

text \<open>
  \<^verbatim>\<open>smooth_l1_loss(x, y, reduction='none')\<close> on one entry, with the default
  \<^verbatim>\<open>beta = 1.0\<close>.
\<close>

definition smooth_l1 :: "real \<Rightarrow> real \<Rightarrow> real" where
  "smooth_l1 x y = (if \<bar>x - y\<bar> < 1 then 0.5 * (x - y)\<^sup>2 else \<bar>x - y\<bar> - 0.5)"

text \<open>
  \<^verbatim>\<open>torch.atan2(y, x)\<close> on one entry: the angle of the point \<open>(x, y)\<close>, with
  \<open>atan2 0 0 = 0\<close>.
\<close>

definition atan2 :: "real \<Rightarrow> real \<Rightarrow> real" where
  "atan2 y x = (if 0 < x then arctan (y / x)
                else if x < 0 then (if 0 \<le> y then arctan (y / x) + pi else arctan (y / x) - pi)
                else if 0 < y then pi / 2 else if y < 0 then - (pi / 2) else 0)"

text \<open>Elementwise binary operation on the first three dimensions of two tensors.\<close>

definition map2_3 ::
  "('a \<Rightarrow> 'b \<Rightarrow> 'c) \<Rightarrow> 'a list list list \<Rightarrow> 'b list list list \<Rightarrow> 'c list list list" where
  "map2_3 f x y = map2 (map2 (map2 f)) x y"

text \<open>\<^verbatim>\<open>loss * mask\<close> on shape \<open>[B, A, T]\<close>: \<open>True\<close> counts as 1, \<open>False\<close> as 0.\<close>

definition mul_mask :: "tensor3 \<Rightarrow> mask3 \<Rightarrow> tensor3" where
  "mul_mask x m = map2_3 (\<lambda>u b. u * of_bool b) x m"

text \<open>\<^verbatim>\<open>x.sum()\<close> of a three-dimensional tensor.\<close>

definition sum3 :: "tensor3 \<Rightarrow> real" where
  "sum3 x = sum_list (concat (concat x))"

text \<open>\<^verbatim>\<open>mask.sum()\<close> of a Boolean tensor: the number of \<open>True\<close> entries.\<close>

definition count3 :: "mask3 \<Rightarrow> nat" where
  "count3 m = length (filter (\<lambda>b. b) (concat (concat m)))"

text \<open>
  \<^verbatim>\<open>valid * (agents_interested[..., None] > 0)\<close>: the interest flag of an agent,
  broadcast over its time steps.
\<close>

definition interest_mask :: "mask3 \<Rightarrow> int list list \<Rightarrow> mask3" where
  "interest_mask valid agents_interested =
     map2 (map2 (\<lambda>v i. map (\<lambda>vt. vt \<and> 0 < i) v)) valid agents_interested"

text \<open>
  \<^verbatim>\<open>DPR.denoise_loss\<close>. \<open>denoised_trajs\<close> has shape \<open>[B, A, T, C]\<close>,
  \<open>agents_future\<close> has shape \<open>[B, A, T + 1, C']\<close> with \<open>C, C' \<ge> 3\<close>,
  \<open>agents_future_valid\<close> has shape \<open>[B, A, T + 1]\<close>, \<open>agents_interested\<close> has
  shape \<open>[B, A]\<close>.
\<close>

definition denoise_loss :: "tensor4 \<Rightarrow> tensor4 \<Rightarrow> mask3 \<Rightarrow> int list list \<Rightarrow> tval \<times> tval" where
  "denoise_loss denoised_trajs agents_future agents_future_valid agents_interested =
     (let agents_future = map (map (\<lambda>traj. map (take 3) (drop 1 traj))) agents_future;
          future_mask = interest_mask (map (map (drop 1)) agents_future_valid) agents_interested;
          state_loss = map2_3 (\<lambda>p q. sum_list (map2 smooth_l1 (take 2 p) (take 2 q)))
                         denoised_trajs agents_future;
          yaw_error = map2_3 (\<lambda>p q. p ! 2 - q ! 2) denoised_trajs agents_future;
          yaw_error = map (map (map (\<lambda>e. atan2 (sin e) (cos e)))) yaw_error;
          yaw_loss = map (map (map abs)) yaw_error;
          state_loss = mul_mask state_loss future_mask;
          yaw_loss = mul_mask yaw_loss future_mask;
          state_loss_mean = tdiv (sum3 state_loss) (real (count3 future_mask));
          yaw_loss_mean = tdiv (sum3 yaw_loss) (real (count3 future_mask))
      in (state_loss_mean, yaw_loss_mean))"

text \<open>
  \<^verbatim>\<open>DPR.action_loss\<close>. \<open>actions\<close> and \<open>actions_gt\<close> have shape \<open>[B, A, T, 2]\<close>,
  \<open>actions_valid\<close> has shape \<open>[B, A, T]\<close>.
\<close>

definition action_loss :: "tensor4 \<Rightarrow> tensor4 \<Rightarrow> mask3 \<Rightarrow> int list list \<Rightarrow> tval" where
  "action_loss actions actions_gt actions_valid agents_interested =
     (let action_mask = interest_mask actions_valid agents_interested;
          action_loss = map2_3 (\<lambda>p q. sum_list (map2 smooth_l1 p q)) actions actions_gt;
          action_loss = mul_mask action_loss action_mask;
          action_loss_mean = tdiv (sum3 action_loss) (real (count3 action_mask))
      in action_loss_mean)"

section \<open>Goal predictor loss (\<^verbatim>\<open>goal_loss\<close> in DPR.py and GRPO.py)\<close>

text \<open>\<^verbatim>\<open>torch.norm(v, dim=-1)\<close>: the Euclidean norm of a vector of the last dimension.\<close>

definition norm2 :: "tensor1 \<Rightarrow> real" where
  "norm2 v = sqrt (sum_list (map (\<lambda>u. u\<^sup>2) v))"

text \<open>
  \<^verbatim>\<open>torch.argmin(x, dim=-1)\<close> on one non-empty row: the index of the first minimal
  value.
\<close>

fun argmin :: "tensor1 \<Rightarrow> nat" where
  "argmin [] = 0"
| "argmin [x] = 0"
| "argmin (x # y # ys) = (let i = argmin (y # ys) in if x \<le> (y # ys) ! i then 0 else Suc i)"

text \<open>
  \<^verbatim>\<open>cross_entropy(scores, idx, reduction='none')\<close> on one row of logits with class
  index \<open>k\<close>: minus the \<open>k\<close>-th entry of the log-softmax.
\<close>

definition cross_entropy :: "tensor1 \<Rightarrow> nat \<Rightarrow> real" where
  "cross_entropy s k = ln (sum_list (map exp s)) - s ! k"

text \<open>
  The distances of the anchors of one agent to its ground-truth endpoint:
  \<^verbatim>\<open>torch.norm(anchors_global - goal_gt, dim=-1)\<close>, with \<open>goal_gt\<close> of shape \<open>[1, 2]\<close>
  broadcast over the \<open>Q\<close> anchors.
\<close>

definition anchor_dist :: "tensor2 \<Rightarrow> tensor2 \<Rightarrow> tensor1" where
  "anchor_dist anchors_global goal_gt = map (\<lambda>a. norm2 (map2 (-) a (hd goal_gt))) anchors_global"

text \<open>
  The masked displacement of one rolled-out trajectory from the ground truth, per step:
  \<^verbatim>\<open>torch.norm(trajs[..., :2] - trajs_gt[..., :2], dim=-1) * traj_mask\<close>.
\<close>

definition masked_dist :: "tensor2 \<Rightarrow> tensor2 \<Rightarrow> bool list \<Rightarrow> tensor1" where
  "masked_dist traj traj_gt traj_mask =
     map2 (\<lambda>u b. u * of_bool b)
       (map2 (\<lambda>p g. norm2 (map2 (-) (take 2 p) (take 2 g))) traj traj_gt) traj_mask"

text \<open>
  The index selection of \<^verbatim>\<open>goal_loss\<close> on the flattened agents (\<open>N = B * A\<close>):
  \<^verbatim>\<open>idx_anchor = torch.argmin(torch.norm(anchors_global - goal_gt, dim=-1), dim=-1)\<close>,
  \<^verbatim>\<open>idx = torch.argmin(dist.mean(-1), dim=-1)\<close>,
  \<^verbatim>\<open>idx = torch.where(agents_future_valid[..., -1].flatten(0, 1), idx_anchor, idx)\<close>.
\<close>

definition goal_select_idx ::
  "tensor3 \<Rightarrow> tensor4 \<Rightarrow> tensor3 \<Rightarrow> tensor3 \<Rightarrow> mask2 \<Rightarrow> bool list \<Rightarrow> nat list" where
  "goal_select_idx anchors_global trajs trajs_gt goal_gt traj_mask valid_last =
     (let idx_anchor = map2 (\<lambda>anc g. argmin (anchor_dist anc g)) anchors_global goal_gt;
          dist = map2 (\<lambda>tr (gt, m). map (\<lambda>traj. masked_dist traj gt m) tr) trajs
                   (zip trajs_gt traj_mask);
          idx = map (\<lambda>d. argmin (map mean d)) dist
      in map2 (\<lambda>v (ia, i). if v then ia else i) valid_last (zip idx_anchor idx))"

text \<open>
  \<^verbatim>\<open>trajs_select = trajs[torch.arange(num_batch * num_agents), idx]\<close>,
  \<^verbatim>\<open>traj_loss = smooth_l1_loss(trajs_select, trajs_gt, reduction='none').sum(-1)\<close>,
  \<^verbatim>\<open>traj_loss = traj_loss * traj_mask.flatten(0, 1)\<close>.
\<close>

definition goal_traj_loss :: "nat \<Rightarrow> tensor4 \<Rightarrow> tensor3 \<Rightarrow> nat list \<Rightarrow> mask2 \<Rightarrow> tensor2" where
  "goal_traj_loss N trajs trajs_gt idx traj_mask =
     (let trajs_select = map (\<lambda>n. trajs ! n ! (idx ! n)) [0..<N];
          traj_loss = map2 (map2 (\<lambda>p g. sum_list (map2 smooth_l1 p g))) trajs_select trajs_gt
      in map2 (map2 (\<lambda>u b. u * of_bool b)) traj_loss traj_mask)"

text \<open>
  \<^verbatim>\<open>score_loss = cross_entropy(scores, idx, reduction='none')\<close>,
  \<^verbatim>\<open>score_loss = score_loss * (agents_interested.flatten(0, 1) > 0)\<close>.
\<close>

definition goal_score_loss :: "tensor2 \<Rightarrow> nat list \<Rightarrow> int list \<Rightarrow> tensor1" where
  "goal_score_loss scores idx agents_interested =
     map2 (\<lambda>l i. l * of_bool (0 < i)) (map2 cross_entropy scores idx) agents_interested"

text \<open>
  \<^verbatim>\<open>goal_loss\<close>. \<open>trajs\<close> has shape \<open>[B, A, Q, T, C]\<close>, \<open>scores\<close> has shape
  \<open>[B, A, Q]\<close>, \<open>agents_future\<close> has shape \<open>[B, A, T + 1, C']\<close>, \<open>anchors\<close> has
  shape \<open>[B, A, Q, 2]\<close>. The helper \<^verbatim>\<open>batch_transform_trajs_to_global_frame\<close> of
  \<^verbatim>\<open>model_utils\<close> is the parameter \<open>to_global\<close>.
\<close>

definition goal_loss ::
  "(tensor4 \<Rightarrow> tensor3 \<Rightarrow> tensor4) \<Rightarrow> tensor5 \<Rightarrow> tensor3 \<Rightarrow> tensor4 \<Rightarrow> mask3 \<Rightarrow> tensor4
     \<Rightarrow> int list list \<Rightarrow> tval \<times> tval" where
  "goal_loss to_global trajs scores agents_future agents_future_valid anchors agents_interested =
     (let current_states = map (map (\<lambda>traj. take 3 (traj ! 0))) agents_future;
          anchors_global = to_global anchors current_states;
          num_batch = length anchors_global;
          num_agents = length (hd anchors_global);
          traj_mask = interest_mask (map (map (drop 1)) agents_future_valid) agents_interested;
          goal_gt = concat (map (map (\<lambda>traj. map (take 2) (drop (length traj - 1) traj)))
                              agents_future);
          trajs_gt = concat (map (map (\<lambda>traj. map (take 3) (drop 1 traj))) agents_future);
          trajs = map (map (map (take 3))) (concat trajs);
          anchors_global = concat anchors_global;
          idx = goal_select_idx anchors_global trajs trajs_gt goal_gt (concat traj_mask)
                  (map last (concat agents_future_valid));
          traj_loss = goal_traj_loss (num_batch * num_agents) trajs trajs_gt idx (concat traj_mask);
          score_loss = goal_score_loss (concat scores) idx (concat agents_interested);
          traj_loss_mean = tdiv (sum_list (concat traj_loss)) (real (count3 traj_mask));
          score_loss_mean = tdiv (sum_list score_loss)
                              (real (length (filter (\<lambda>i. 0 < i) (concat agents_interested))))
      in (traj_loss_mean, score_loss_mean))"

section \<open>Reference policy (GRPO.py: \<^verbatim>\<open>__init__\<close>, \<^verbatim>\<open>configure_optimizers\<close>, \<^verbatim>\<open>on_train_epoch_end\<close>)\<close>

text \<open>
  A parameter tensor is an object on the heap with a value and its
  \<^verbatim>\<open>requires_grad\<close> flag; a module holds the addresses of its parameters. Two modules
  share a parameter exactly when they hold the same address.
\<close>

datatype py_error = ValueError string | AttributeError string | AssertionError string
  | RuntimeError string

record param =
  pdata :: real
  requires_grad :: bool

type_synonym addr = nat

record grpo_model =
  heap :: "param list"
  encoder :: "addr list"
  denoiser :: "addr list"
  reference_model :: "addr list"
  predictor :: "addr list option"
  reference_training :: bool
  train_encoder :: bool
  train_denoiser :: bool
  train_predictor :: bool
  with_predictor :: bool
  optimizer :: "addr list option"

text \<open>Constructing a module allocates its parameters; a new parameter requires gradients.\<close>

definition new_module :: "real list \<Rightarrow> param list \<Rightarrow> addr list \<times> param list" where
  "new_module vals h =
     ([length h ..< length h + length vals],
      h @ map (\<lambda>v. \<lparr>pdata = v, requires_grad = True\<rparr>) vals)"

text \<open>\<^verbatim>\<open>copy.deepcopy(module)\<close>: every parameter is copied to a fresh address.\<close>

definition deepcopy :: "addr list \<Rightarrow> param list \<Rightarrow> addr list \<times> param list" where
  "deepcopy m h = ([length h ..< length h + length m], h @ map (\<lambda>a. h ! a) m)"

text \<open>\<^verbatim>\<open>for p in module.parameters(): p.requires_grad = b\<close>.\<close>

definition set_requires_grad :: "addr list \<Rightarrow> bool \<Rightarrow> param list \<Rightarrow> param list" where
  "set_requires_grad m b h = foldl (\<lambda>h a. h[a := (h ! a)\<lparr>requires_grad := b\<rparr>]) h m"

text \<open>
  \<^verbatim>\<open>DPR_GRPO.__init__\<close>, the part that builds the modules: the encoder, the denoiser, the
  reference model as a deep copy of the denoiser, put in evaluation mode, with
  \<^verbatim>\<open>requires_grad = False\<close> on every parameter, and the predictor when the
  configuration asks for one (otherwise \<^verbatim>\<open>_train_predictor\<close> is forced to
  \<open>False\<close>). The initial parameter values of the three networks are arguments.
\<close>

definition DPR_GRPO_init ::
  "bool \<Rightarrow> bool \<Rightarrow> bool \<Rightarrow> bool \<Rightarrow> real list \<Rightarrow> real list \<Rightarrow> real list \<Rightarrow> grpo_model" where
  "DPR_GRPO_init cfg_train_encoder cfg_train_denoiser cfg_train_predictor cfg_with_predictor
       encoder_init denoiser_init predictor_init =
     (let (enc, h) = new_module encoder_init [];
          (den, h) = new_module denoiser_init h;
          (ref, h) = deepcopy den h;
          h = set_requires_grad ref False h;
          (pred, h) = (if cfg_with_predictor
                       then (let (p, h) = new_module predictor_init h in (Some p, h))
                       else (None, h))
      in \<lparr>heap = h, encoder = enc, denoiser = den, reference_model = ref, predictor = pred,
          reference_training = False,
          train_encoder = cfg_train_encoder, train_denoiser = cfg_train_denoiser,
          train_predictor = (if cfg_with_predictor then cfg_train_predictor else False),
          with_predictor = cfg_with_predictor, optimizer = None\<rparr>)"

text \<open>\<^verbatim>\<open>self.parameters()\<close>: the parameters of all sub-modules, in registration order.\<close>

definition parameters :: "grpo_model \<Rightarrow> addr list" where
  "parameters s = encoder s @ denoiser s @ reference_model s
                    @ (case predictor s of None \<Rightarrow> [] | Some p \<Rightarrow> p)"

text \<open>
  \<^verbatim>\<open>configure_optimizers\<close>: freezes the modules that are not trained, collects the
  parameters that require gradients and hands them to the optimizer; fails on the
  assertion when there is none.
\<close>

definition configure_optimizers :: "grpo_model \<Rightarrow> py_error + grpo_model" where
  "configure_optimizers s =
     (let h = heap s;
          h = (if \<not> train_encoder s then set_requires_grad (encoder s) False h else h);
          h = (if \<not> train_denoiser s then set_requires_grad (denoiser s) False h else h);
          h = (if with_predictor s \<and> \<not> train_predictor s
               then set_requires_grad (case predictor s of None \<Rightarrow> [] | Some p \<Rightarrow> p) False h
               else h);
          params_to_update = filter (\<lambda>a. requires_grad (h ! a) = True) (parameters s)
      in if \<not> length params_to_update > 0 then Inl (AssertionError ''No parameters to update'')
         else Inr (s\<lparr>heap := h, optimizer := Some params_to_update\<rparr>))"

text \<open>
  One optimizer step of the training loop: every parameter held by the optimizer gets a
  new value, \<open>upd a v\<close> for the parameter at address \<open>a\<close> with value \<open>v\<close>; no other
  parameter is written. The update rule itself (AdamW on the gradients) is arbitrary here.
\<close>

definition optimizer_step :: "(addr \<Rightarrow> real \<Rightarrow> real) \<Rightarrow> grpo_model \<Rightarrow> grpo_model" where
  "optimizer_step upd s =
     (case optimizer s of
        None \<Rightarrow> s
      | Some ps \<Rightarrow> s\<lparr>heap := foldl (\<lambda>h a. h[a := (h ! a)\<lparr>pdata := upd a (pdata (h ! a))\<rparr>])
                                  (heap s) ps\<rparr>)"

text \<open>\<^verbatim>\<open>module.state_dict()\<close> followed by \<^verbatim>\<open>copy.deepcopy\<close>: the values, by position.\<close>

definition state_dict :: "addr list \<Rightarrow> param list \<Rightarrow> real list" where
  "state_dict m h = map (\<lambda>a. pdata (h ! a)) m"

text \<open>
  \<^verbatim>\<open>module.load_state_dict(d)\<close>: the values of \<open>d\<close> are copied into the existing
  parameters of the module; the flags of the parameters are not touched.
\<close>

definition load_state_dict :: "addr list \<Rightarrow> real list \<Rightarrow> param list \<Rightarrow> param list" where
  "load_state_dict m d h = foldl (\<lambda>h (a, v). h[a := (h ! a)\<lparr>pdata := v\<rparr>]) h (zip m d)"

text \<open>
  \<^verbatim>\<open>on_train_epoch_end\<close>:
  \<^verbatim>\<open>self.reference_model.load_state_dict(copy.deepcopy(self.denoiser.state_dict()))\<close>,
  \<^verbatim>\<open>self.reference_model.eval()\<close>.
\<close>

definition on_train_epoch_end :: "grpo_model \<Rightarrow> grpo_model" where
  "on_train_epoch_end s =
     s\<lparr>heap := load_state_dict (reference_model s) (state_dict (denoiser s) (heap s)) (heap s),
       reference_training := False\<rparr>"

text \<open>
  The states a training run passes through: construction, then
  \<^verbatim>\<open>configure_optimizers\<close>, optimizer steps and the end-of-epoch hook in any order and
  number.
\<close>

inductive reachable :: "grpo_model \<Rightarrow> bool" where
  r_init: "reachable (DPR_GRPO_init te td tp wp encoder_init denoiser_init predictor_init)"
| r_configure: "reachable s \<Longrightarrow> configure_optimizers s = Inr s' \<Longrightarrow> reachable s'"
| r_step: "reachable s \<Longrightarrow> reachable (optimizer_step upd s)"
| r_epoch_end: "reachable s \<Longrightarrow> reachable (on_train_epoch_end s)"

text \<open>
  A short run: construction with encoder value 1 and denoiser values 2 and 3, no predictor,
  \<^verbatim>\<open>configure_optimizers\<close>, and one optimizer step that adds 1 to every parameter it
  holds.
\<close>

definition example_run :: grpo_model where
  "example_run =
     optimizer_step (\<lambda>a v. v + 1)
       (projr (configure_optimizers (DPR_GRPO_init True True True False [1] [2, 3] [])))"

text \<open>
  The invariant of the reference policy: its parameters are distinct objects on the heap,
  none of them requires gradients, none is shared with the denoiser, there is one for
  every parameter of the denoiser, and the optimizer holds none of them.
\<close>

definition ref_inv :: "grpo_model \<Rightarrow> bool" where
  "ref_inv s \<longleftrightarrow>
     distinct (reference_model s)
     \<and> (\<forall>a\<in>set (reference_model s). a < length (heap s) \<and> \<not> requires_grad (heap s ! a))
     \<and> set (reference_model s) \<inter> set (denoiser s) = {}
     \<and> length (reference_model s) = length (denoiser s)
     \<and> (\<forall>ps. optimizer s = Some ps \<longrightarrow> set ps \<inter> set (reference_model s) = {})"

section \<open>Training step (\<^verbatim>\<open>forward_and_get_loss\<close> in DPR.py and GRPO.py)\<close>

subsection \<open>Python values, configuration, collaborators\<close>

text \<open>
  The variable \<^verbatim>\<open>total_loss\<close> starts as the Python integer 0 and becomes a tensor
  once a tensor is added to it. \<^verbatim>\<open>.item()\<close> exists on tensors only.
\<close>

datatype pyval = PyInt int | Tensor tval

text \<open>\<^verbatim>\<open>total_loss += x\<close> for a scalar tensor \<open>x\<close>.\<close>

definition py_iadd :: "pyval \<Rightarrow> tval \<Rightarrow> pyval" where
  "py_iadd acc x =
     (case acc of PyInt n \<Rightarrow> Tensor (tadd (Fin (of_int n)) x) | Tensor v \<Rightarrow> Tensor (tadd v x))"

text \<open>\<^verbatim>\<open>total_loss.item()\<close>: an integer has no such attribute.\<close>

definition item :: "pyval \<Rightarrow> py_error + tval" where
  "item acc = (case acc of PyInt n \<Rightarrow> Inl (AttributeError ''item'') | Tensor v \<Rightarrow> Inr v)"

type_synonym log_dict = "string \<rightharpoonup> tval"

text \<open>
  The configuration dictionary; a key read with \<^verbatim>\<open>cfg.get(key, default)\<close> may be absent.
\<close>

record cfg =
  cfg_agents_len :: nat
  cfg_action_len :: nat
  cfg_action_mean :: "real list"
  cfg_action_std :: "real list"
  cfg_train_denoiser :: "bool option"
  cfg_train_predictor :: "bool option"
  cfg_with_predictor :: "bool option"
  cfg_prediction_type :: "string option"
  cfg_replay_buffer :: "bool option"
  cfg_group_size :: "nat option"
  cfg_beta :: "real option"

definition cfg_get :: "'a option \<Rightarrow> 'a \<Rightarrow> 'a" where
  "cfg_get v d = (case v of None \<Rightarrow> d | Some x \<Rightarrow> x)"

text \<open>The attributes that \<^verbatim>\<open>__init__\<close> sets from the configuration.\<close>

record settings =
  attr_agents_len :: nat
  attr_action_len :: nat
  attr_action_mean :: "real list"
  attr_action_std :: "real list"
  attr_train_denoiser :: bool
  attr_train_predictor :: bool
  attr_with_predictor :: bool
  attr_prediction_type :: string
  attr_replay_buffer :: bool
  attr_group_size :: nat
  attr_beta :: real

text \<open>
  \<^verbatim>\<open>DPR.__init__\<close>: \<^verbatim>\<open>with_predictor\<close> defaults to \<open>True\<close>; without a predictor
  \<^verbatim>\<open>_train_predictor\<close> is forced to \<open>False\<close>.
\<close>

definition DPR_settings :: "cfg \<Rightarrow> settings" where
  "DPR_settings c =
     \<lparr>attr_agents_len = cfg_agents_len c, attr_action_len = cfg_action_len c,
      attr_action_mean = cfg_action_mean c, attr_action_std = cfg_action_std c,
      attr_train_denoiser = cfg_get (cfg_train_denoiser c) True,
      attr_train_predictor = (if cfg_get (cfg_with_predictor c) True
                              then cfg_get (cfg_train_predictor c) True else False),
      attr_with_predictor = cfg_get (cfg_with_predictor c) True,
      attr_prediction_type = cfg_get (cfg_prediction_type c) ''sample'',
      attr_replay_buffer = cfg_get (cfg_replay_buffer c) False,
      attr_group_size = cfg_get (cfg_group_size c) 6,
      attr_beta = cfg_get (cfg_beta c) (1 / 10)\<rparr>"

text \<open>\<^verbatim>\<open>DPR_GRPO.__init__\<close>: the same, but \<^verbatim>\<open>with_predictor\<close> defaults to \<open>False\<close>.\<close>

definition DPR_GRPO_settings :: "cfg \<Rightarrow> settings" where
  "DPR_GRPO_settings c =
     \<lparr>attr_agents_len = cfg_agents_len c, attr_action_len = cfg_action_len c,
      attr_action_mean = cfg_action_mean c, attr_action_std = cfg_action_std c,
      attr_train_denoiser = cfg_get (cfg_train_denoiser c) True,
      attr_train_predictor = (if cfg_get (cfg_with_predictor c) False
                              then cfg_get (cfg_train_predictor c) True else False),
      attr_with_predictor = cfg_get (cfg_with_predictor c) False,
      attr_prediction_type = cfg_get (cfg_prediction_type c) ''sample'',
      attr_replay_buffer = cfg_get (cfg_replay_buffer c) False,
      attr_group_size = cfg_get (cfg_group_size c) 6,
      attr_beta = cfg_get (cfg_beta c) (1 / 10)\<rparr>"

text \<open>
  A batch: the three tensors the loss reads, and the rest of the scene that only the
  encoder reads.
\<close>

record 'x batch =
  batch_agents_future :: tensor4
  batch_agents_interested :: "int list list"
  batch_anchors :: tensor4
  batch_scene :: 'x

text \<open>
  The output of the encoder: the entry \<^verbatim>\<open>'agents'\<close> of shape \<open>[B, N, T, C]\<close>, and the
  other entries, which only the networks read.
\<close>

record 'r encoder_outputs =
  enc_agents :: tensor4
  enc_rest :: 'r

text \<open>
  The collaborators of the training step, as functions of their arguments: the three
  networks and the reference network, the noise scheduler (\<^verbatim>\<open>DDPM_Sampler\<close> of
  \<^verbatim>\<open>model/utils\<close>), and the kinematic helpers of \<^verbatim>\<open>model/model_utils\<close>, none of which
  is part of the loss code. \<^verbatim>\<open>q_x0\<close> can fail on the prediction type it is given.
  The ADE and FDE routines and the GRPO reward write only to the log or are an arbitrary
  input of the loss; they are functions of their arguments here as well.
\<close>

record ('x, 'r) components =
  encoder_net :: "'x batch \<Rightarrow> 'r encoder_outputs"
  denoiser_net :: "'r encoder_outputs \<Rightarrow> tensor4 \<Rightarrow> steps2 \<Rightarrow> tensor4 \<Rightarrow> tensor4"
  reference_net :: "'r encoder_outputs \<Rightarrow> tensor4 \<Rightarrow> steps2 \<Rightarrow> tensor4 \<Rightarrow> tensor4"
  predictor_net :: "'r encoder_outputs \<Rightarrow> tensor5 \<times> tensor3"
  q_x0 :: "tensor4 \<Rightarrow> steps2 \<Rightarrow> tensor4 \<Rightarrow> string \<Rightarrow> py_error + tensor4"
  add_noise :: "tensor4 \<Rightarrow> tensor4 \<Rightarrow> steps4 \<Rightarrow> tensor4"
  scheduler_step :: "tensor4 \<Rightarrow> steps4 \<Rightarrow> tensor4 \<Rightarrow> string \<Rightarrow> tensor4"
  get_noise :: "tensor4 \<Rightarrow> tensor4 \<Rightarrow> steps4 \<Rightarrow> tensor4 \<Rightarrow> tensor4 \<times> tval"
  roll_out :: "tensor3 \<Rightarrow> tensor4 \<Rightarrow> nat \<Rightarrow> tensor4"
  roll_out_goal :: "tensor3 \<Rightarrow> tensor5 \<Rightarrow> nat \<Rightarrow> tensor5"
  inverse_kinematics :: "tensor4 \<Rightarrow> mask3 \<Rightarrow> nat \<Rightarrow> tensor4 \<times> mask3"
  to_global_frame :: "tensor4 \<Rightarrow> tensor3 \<Rightarrow> tensor4"
  calculate_metrics_denoise :: "tensor4 \<Rightarrow> tensor4 \<Rightarrow> mask3 \<Rightarrow> int list list \<Rightarrow> nat \<Rightarrow> tval \<times> tval"
  calculate_metrics_denoise_group ::
    "tensor5 \<Rightarrow> tensor4 \<Rightarrow> mask3 \<Rightarrow> int list list \<Rightarrow> nat \<Rightarrow> tval \<times> tval"
  calculate_metrics_predict :: "tensor5 \<Rightarrow> tensor4 \<Rightarrow> mask3 \<Rightarrow> int list list \<Rightarrow> nat \<Rightarrow> tval \<times> tval"
  compute_grpo_trajectory_reward :: "tensor5 \<Rightarrow> tensor5 \<Rightarrow> real \<Rightarrow> real \<Rightarrow> py_error + tensor2"

text \<open>
  The random draws of one step: the values of \<^verbatim>\<open>torch.randint\<close>, one per batch element,
  and the \<open>g\<close>-th value of \<^verbatim>\<open>torch.randn\<close> (the supervised step draws once).
\<close>

record draws =
  draw_steps :: "nat list"
  draw_noise :: "nat \<Rightarrow> tensor4"

subsection \<open>Helpers\<close>

text \<open>\<^verbatim>\<open>normalize_actions\<close> and \<^verbatim>\<open>unnormalize_actions\<close>, on one action vector.\<close>

definition normalize_vec :: "real list \<Rightarrow> real list \<Rightarrow> real list \<Rightarrow> real list" where
  "normalize_vec mu sd a = map2 (/) (map2 (-) a mu) sd"

definition unnormalize_vec :: "real list \<Rightarrow> real list \<Rightarrow> real list \<Rightarrow> real list" where
  "unnormalize_vec mu sd a = map2 (+) (map2 (*) a sd) mu"

definition normalize_actions :: "settings \<Rightarrow> tensor4 \<Rightarrow> tensor4" where
  "normalize_actions m actions =
     map (map (map (normalize_vec (attr_action_mean m) (attr_action_std m)))) actions"

definition unnormalize_actions :: "settings \<Rightarrow> tensor4 \<Rightarrow> tensor4" where
  "unnormalize_actions m actions =
     map (map (map (unnormalize_vec (attr_action_mean m) (attr_action_std m)))) actions"

definition unnormalize_goal_actions :: "settings \<Rightarrow> tensor5 \<Rightarrow> tensor5" where
  "unnormalize_goal_actions m actions =
     map (map (map (map (unnormalize_vec (attr_action_mean m) (attr_action_std m))))) actions"

text \<open>\<^verbatim>\<open>torch.ne(agents_future.sum(-1), 0)\<close>.\<close>

definition future_valid :: "tensor4 \<Rightarrow> mask3" where
  "future_valid agents_future = map (map (map (\<lambda>state. sum_list state \<noteq> 0))) agents_future"

text \<open>The slice \<^verbatim>\<open>[0::2]\<close> of a list.\<close>

fun every_second :: "'a list \<Rightarrow> 'a list" where
  "every_second [] = []"
| "every_second [x] = [x]"
| "every_second (x # y # xs) = x # every_second xs"

text \<open>
  \<^verbatim>\<open>torch.cat([agents_future[:, :, 0:1, :], agents_future[:, :, 1::2, :]], dim=2)\<close>.
\<close>

definition downsample_future :: "tensor4 \<Rightarrow> tensor4" where
  "downsample_future agents_future =
     map (map (\<lambda>traj. take 1 traj @ every_second (drop 1 traj))) agents_future"

text \<open>
  \<^verbatim>\<open>encoder_outputs['agents'][:, :self._agents_len, -1]\<close> and the assertion
  \<^verbatim>\<open>encoder_outputs['agents'].shape[1] >= self._agents_len\<close>.
\<close>

definition current_states_of :: "settings \<Rightarrow> 'r encoder_outputs \<Rightarrow> tensor3" where
  "current_states_of m encoder_outputs =
     map (\<lambda>agents. map last (take (attr_agents_len m) agents)) (enc_agents encoder_outputs)"

definition agents_assert :: "settings \<Rightarrow> 'r encoder_outputs \<Rightarrow> bool" where
  "agents_assert m encoder_outputs \<longleftrightarrow>
     (\<forall>agents\<in>set (enc_agents encoder_outputs). length agents \<ge> attr_agents_len m)"

text \<open>\<^verbatim>\<open>torch.nn.functional.mse_loss(x, y, reduction='mean')\<close> on four dimensions.\<close>

definition mse_loss_mean :: "tensor4 \<Rightarrow> tensor4 \<Rightarrow> tval" where
  "mse_loss_mean x y =
     (let d = concat (concat (concat (mse_loss_none x y)))
      in tdiv (sum_list d) (real (length d)))"

subsection \<open>Supervised step (DPR.py)\<close>

record denoiser_outputs =
  out_denoiser_output :: tensor4
  out_denoised_actions_normalized :: tensor4
  out_denoised_actions :: tensor4
  out_denoised_trajs :: tensor4

text \<open>\<^verbatim>\<open>DPR.forward_denoiser\<close>.\<close>

definition DPR_forward_denoiser ::
  "settings \<Rightarrow> ('x, 'r) components \<Rightarrow> 'r encoder_outputs \<Rightarrow> tensor4 \<Rightarrow> steps2 \<Rightarrow> tensor4
     \<Rightarrow> py_error + denoiser_outputs" where
  "DPR_forward_denoiser m cmp encoder_outputs noised_actions_normalized diffusion_step
       agents_future =
     (let noised_actions = unnormalize_actions m noised_actions_normalized;
          denoiser_output = denoiser_net cmp encoder_outputs noised_actions diffusion_step
                              agents_future
      in case q_x0 cmp denoiser_output diffusion_step noised_actions_normalized
                (attr_prediction_type m) of
           Inl e \<Rightarrow> Inl e
         | Inr denoised_actions_normalized \<Rightarrow>
             (let current_states = current_states_of m encoder_outputs
              in if \<not> agents_assert m encoder_outputs then Inl (AssertionError ''agents'')
                 else (let denoised_actions = unnormalize_actions m denoised_actions_normalized;
                           denoised_trajs = roll_out cmp current_states denoised_actions
                                              (attr_action_len m)
                       in Inr \<lparr>out_denoiser_output = denoiser_output,
                               out_denoised_actions_normalized = denoised_actions_normalized,
                               out_denoised_actions = denoised_actions,
                               out_denoised_trajs = denoised_trajs\<rparr>)))"

record goal_outputs =
  out_goal_actions_normalized :: tensor5
  out_goal_actions :: tensor5
  out_goal_scores :: tensor3
  out_goal_trajs :: tensor5

text \<open>\<^verbatim>\<open>forward_predictor\<close>, the same in both classes.\<close>

definition forward_predictor ::
  "settings \<Rightarrow> ('x, 'r) components \<Rightarrow> 'r encoder_outputs \<Rightarrow> py_error + goal_outputs" where
  "forward_predictor m cmp encoder_outputs =
     (let (goal_actions_normalized, goal_scores) = predictor_net cmp encoder_outputs;
          current_states = current_states_of m encoder_outputs
      in if \<not> agents_assert m encoder_outputs then Inl (AssertionError ''agents'')
         else (let goal_actions = unnormalize_goal_actions m goal_actions_normalized;
                   goal_trajs = roll_out_goal cmp current_states goal_actions (attr_action_len m)
               in Inr \<lparr>out_goal_actions_normalized = goal_actions_normalized,
                       out_goal_actions = goal_actions,
                       out_goal_scores = goal_scores,
                       out_goal_trajs = goal_trajs\<rparr>))"

text \<open>
  The block under \<^verbatim>\<open>if self._train_predictor:\<close> of \<^verbatim>\<open>forward_and_get_loss\<close>, the
  same in both classes.
\<close>

definition predictor_branch ::
  "settings \<Rightarrow> ('x, 'r) components \<Rightarrow> 'r encoder_outputs \<Rightarrow> tensor4 \<Rightarrow> mask3 \<Rightarrow> tensor4
     \<Rightarrow> int list list \<Rightarrow> string \<Rightarrow> pyval \<Rightarrow> log_dict \<Rightarrow> py_error + pyval \<times> log_dict" where
  "predictor_branch m cmp encoder_outputs agents_future agents_future_valid anchors
       agents_interested prefix total_loss logd =
     (case forward_predictor m cmp encoder_outputs of
        Inl e \<Rightarrow> Inl e
      | Inr goal_outputs \<Rightarrow>
          (let goal_scores = out_goal_scores goal_outputs;
               goal_trajs = out_goal_trajs goal_outputs;
               (goal_loss_mean, score_loss_mean) =
                 goal_loss (to_global_frame cmp) goal_trajs goal_scores agents_future
                   agents_future_valid anchors agents_interested;
               pred_loss = tadd goal_loss_mean (tscale 0.05 score_loss_mean);
               total_loss = py_iadd total_loss (tscale 1.0 pred_loss);
               (pred_ade, pred_fde) =
                 calculate_metrics_predict cmp goal_trajs agents_future agents_future_valid
                   agents_interested 8;
               logd = logd(prefix @ ''goal_loss'' \<mapsto> goal_loss_mean,
                         prefix @ ''score_loss'' \<mapsto> score_loss_mean,
                         prefix @ ''pred_ADE'' \<mapsto> pred_ade,
                         prefix @ ''pred_FDE'' \<mapsto> pred_fde)
           in Inr (total_loss, logd)))"

text \<open>
  The dispatch on \<^verbatim>\<open>self._prediction_type\<close> in the supervised step, on the outputs of
  the denoiser pass.
\<close>

definition DPR_prediction_loss ::
  "settings \<Rightarrow> ('x, 'r) components \<Rightarrow> denoiser_outputs \<Rightarrow> tensor4 \<Rightarrow> steps4 \<Rightarrow> tensor4
     \<Rightarrow> tensor4 \<Rightarrow> mask3 \<Rightarrow> int list list \<Rightarrow> tensor4 \<Rightarrow> mask3
     \<Rightarrow> string \<Rightarrow> pyval \<Rightarrow> log_dict \<Rightarrow> py_error + pyval \<times> log_dict" where
  "DPR_prediction_loss m cmp denoise_outputs noised_action_normalized steps noise
       agents_future agents_future_valid agents_interested gt_actions_normalized
       gt_actions_valid prefix total_loss logd =
     (let denoised_trajs = out_denoised_trajs denoise_outputs
      in if attr_prediction_type m = ''sample'' then
           (let (state_loss_mean, yaw_loss_mean) =
                  denoise_loss denoised_trajs agents_future agents_future_valid agents_interested;
                denoise_loss_value = tadd state_loss_mean yaw_loss_mean;
                total_loss = py_iadd total_loss denoise_loss_value;
                (implied_noise, diffusion_loss) =
                  get_noise cmp (out_denoised_actions_normalized denoise_outputs)
                    noised_action_normalized steps noise;
                logd = logd(prefix @ ''state_loss'' \<mapsto> state_loss_mean,
                          prefix @ ''yaw_loss'' \<mapsto> yaw_loss_mean,
                          prefix @ ''diffusion_loss'' \<mapsto> diffusion_loss)
            in Inr (total_loss, logd))
         else if attr_prediction_type m = ''error'' then
           (let denoiser_output = out_denoiser_output denoise_outputs;
                denoise_loss_value = mse_loss_mean denoiser_output noise;
                total_loss = py_iadd total_loss denoise_loss_value;
                logd = logd(prefix @ ''diffusion_loss'' \<mapsto> denoise_loss_value)
            in Inr (total_loss, logd))
         else if attr_prediction_type m = ''mean'' then
           (let pred_action_normalized = out_denoised_actions_normalized denoise_outputs;
                denoise_loss_value = action_loss pred_action_normalized gt_actions_normalized
                                       gt_actions_valid agents_interested;
                total_loss = py_iadd total_loss denoise_loss_value;
                logd = logd(prefix @ ''action_loss'' \<mapsto> denoise_loss_value)
            in Inr (total_loss, logd))
         else Inl (ValueError ''Invalid prediction type''))"

text \<open>The block under \<^verbatim>\<open>if self._train_denoiser:\<close> of the supervised step.\<close>

definition DPR_denoiser_branch ::
  "settings \<Rightarrow> ('x, 'r) components \<Rightarrow> draws \<Rightarrow> 'r encoder_outputs
     \<Rightarrow> tensor4 \<Rightarrow> mask3 \<Rightarrow> int list list \<Rightarrow> tensor4 \<Rightarrow> tensor4 \<Rightarrow> mask3
     \<Rightarrow> string \<Rightarrow> pyval \<Rightarrow> log_dict \<Rightarrow> py_error + pyval \<times> log_dict" where
  "DPR_denoiser_branch m cmp rnd encoder_outputs agents_future agents_future_valid
       agents_interested agents_future_41 gt_actions_normalized gt_actions_valid
       prefix total_loss logd =
     (let A = length (hd gt_actions_normalized);
          steps = diffusion_steps (draw_steps rnd) A;
          noise = draw_noise rnd 0;
          noised_action_normalized = add_noise cmp gt_actions_normalized noise steps
      in case (if attr_replay_buffer m
               then (case DPR_forward_denoiser m cmp encoder_outputs gt_actions_normalized
                            (view_BA steps) agents_future_41 of
                       Inl e \<Rightarrow> Inl e
                     | Inr denoise_outputs \<Rightarrow>
                         (let x_0 = out_denoised_actions_normalized denoise_outputs;
                              x_t_prev = scheduler_step cmp x_0 steps noised_action_normalized
                                           (attr_prediction_type m)
                          in Inr x_t_prev))
               else Inr noised_action_normalized) of
           Inl e \<Rightarrow> Inl e
         | Inr noised_action_normalized \<Rightarrow>
             (case DPR_forward_denoiser m cmp encoder_outputs noised_action_normalized
                     (view_BA steps) agents_future_41 of
                Inl e \<Rightarrow> Inl e
              | Inr denoise_outputs \<Rightarrow>
                  (case DPR_prediction_loss m cmp denoise_outputs noised_action_normalized steps
                          noise agents_future agents_future_valid agents_interested
                          gt_actions_normalized gt_actions_valid prefix total_loss logd of
                     Inl e \<Rightarrow> Inl e
                   | Inr (total_loss, logd) \<Rightarrow>
                       (let (denoise_ade, denoise_fde) =
                              calculate_metrics_denoise cmp (out_denoised_trajs denoise_outputs)
                                agents_future agents_future_valid agents_interested 8;
                            logd = logd(prefix @ ''denoise_ADE'' \<mapsto> denoise_ade,
                                      prefix @ ''denoise_FDE'' \<mapsto> denoise_fde)
                        in Inr (total_loss, logd)))))"

text \<open>
  \<^verbatim>\<open>DPR.forward_and_get_loss\<close> with \<^verbatim>\<open>debug=False\<close>: the result is the pair
  \<^verbatim>\<open>(total_loss, log_dict)\<close>, or the exception that was raised.
\<close>

definition DPR_forward_and_get_loss ::
  "settings \<Rightarrow> ('x, 'r) components \<Rightarrow> draws \<Rightarrow> 'x batch \<Rightarrow> string
     \<Rightarrow> py_error + pyval \<times> log_dict" where
  "DPR_forward_and_get_loss m cmp rnd batch prefix =
     (let agents_future = map (take (attr_agents_len m)) (batch_agents_future batch);
          agents_future_valid = future_valid agents_future;
          agents_interested = map (take (attr_agents_len m)) (batch_agents_interested batch);
          anchors = map (take (attr_agents_len m)) (batch_anchors batch);
          agents_future_41 = downsample_future agents_future;
          (gt_actions, gt_actions_valid) =
            inverse_kinematics cmp agents_future agents_future_valid (attr_action_len m);
          gt_actions_normalized = normalize_actions m gt_actions;
          logd = Map.empty;
          total_loss = PyInt 0;
          encoder_outputs = encoder_net cmp batch
      in case (if attr_train_denoiser m
               then DPR_denoiser_branch m cmp rnd encoder_outputs agents_future
                      agents_future_valid agents_interested agents_future_41
                      gt_actions_normalized gt_actions_valid prefix total_loss logd
               else Inr (total_loss, logd)) of
           Inl e \<Rightarrow> Inl e
         | Inr (total_loss, logd) \<Rightarrow>
             (case (if attr_train_predictor m
                    then predictor_branch m cmp encoder_outputs agents_future
                           agents_future_valid anchors agents_interested prefix total_loss logd
                    else Inr (total_loss, logd)) of
                Inl e \<Rightarrow> Inl e
              | Inr (total_loss, logd) \<Rightarrow>
                  (case item total_loss of
                     Inl e \<Rightarrow> Inl e
                   | Inr v \<Rightarrow> Inr (total_loss, logd(prefix @ ''loss'' \<mapsto> v)))))"

subsection \<open>GRPO step (GRPO.py)\<close>

record grpo_denoiser_outputs = denoiser_outputs +
  out_denoiser_output_old :: tensor4
  out_denoised_actions_normalized_old :: tensor4
  out_denoised_actions_old :: tensor4
  out_denoised_trajs_old :: tensor4

text \<open>
  \<^verbatim>\<open>DPR_GRPO.forward_denoiser\<close>: the trainable denoiser and the reference model run on
  the same input.
\<close>

definition GRPO_forward_denoiser ::
  "settings \<Rightarrow> ('x, 'r) components \<Rightarrow> 'r encoder_outputs \<Rightarrow> tensor4 \<Rightarrow> steps2 \<Rightarrow> tensor4
     \<Rightarrow> py_error + grpo_denoiser_outputs" where
  "GRPO_forward_denoiser m cmp encoder_outputs noised_actions_normalized diffusion_step
       agents_future =
     (let noised_actions = unnormalize_actions m noised_actions_normalized;
          denoiser_output = denoiser_net cmp encoder_outputs noised_actions diffusion_step
                              agents_future;
          denoiser_output_old = reference_net cmp encoder_outputs noised_actions diffusion_step
                                  agents_future
      in case q_x0 cmp denoiser_output diffusion_step noised_actions_normalized
                (attr_prediction_type m) of
           Inl e \<Rightarrow> Inl e
         | Inr denoised_actions_normalized \<Rightarrow>
             (case q_x0 cmp denoiser_output_old diffusion_step noised_actions_normalized
                     (attr_prediction_type m) of
                Inl e \<Rightarrow> Inl e
              | Inr denoised_actions_normalized_old \<Rightarrow>
                  (let current_states = current_states_of m encoder_outputs
                   in if \<not> agents_assert m encoder_outputs then Inl (AssertionError ''agents'')
                      else (let denoised_actions =
                                  unnormalize_actions m denoised_actions_normalized;
                                denoised_actions_old =
                                  unnormalize_actions m denoised_actions_normalized_old;
                                denoised_trajs = roll_out cmp current_states denoised_actions
                                                   (attr_action_len m);
                                denoised_trajs_old = roll_out cmp current_states
                                                       denoised_actions_old (attr_action_len m)
                            in Inr \<lparr>out_denoiser_output = denoiser_output,
                                    out_denoised_actions_normalized = denoised_actions_normalized,
                                    out_denoised_actions = denoised_actions,
                                    out_denoised_trajs = denoised_trajs,
                                    out_denoiser_output_old = denoiser_output_old,
                                    out_denoised_actions_normalized_old =
                                      denoised_actions_normalized_old,
                                    out_denoised_actions_old = denoised_actions_old,
                                    out_denoised_trajs_old = denoised_trajs_old\<rparr>))))"

text \<open>The results of a list of calls, in order; the first exception ends the loop.\<close>

fun collect :: "('e + 'a) list \<Rightarrow> 'e + 'a list" where
  "collect [] = Inr []"
| "collect (x # xs) =
     (case x of
        Inl e \<Rightarrow> Inl e
      | Inr v \<Rightarrow> (case collect xs of Inl e \<Rightarrow> Inl e | Inr vs \<Rightarrow> Inr (v # vs)))"

text \<open>
  The value of \<^verbatim>\<open>x.mean()\<close> as a scalar tensor: \<open>NaN\<close> when the tensor has no entry.
\<close>

definition mean_value :: "tensor2 \<Rightarrow> real \<Rightarrow> tval" where
  "mean_value entries x = (if concat entries = [] then NaN else Fin x)"

text \<open>
  The block under \<^verbatim>\<open>if self._train_denoiser:\<close> of the GRPO step. \<^verbatim>\<open>torch.stack\<close>
  raises on an empty list, which is the case \<open>G = 0\<close>. The block assigns
  \<^verbatim>\<open>total_loss = policy_loss + kl_penalty\<close>.
\<close>

definition GRPO_denoiser_branch ::
  "settings \<Rightarrow> ('x, 'r) components \<Rightarrow> draws \<Rightarrow> 'r encoder_outputs
     \<Rightarrow> tensor4 \<Rightarrow> mask3 \<Rightarrow> int list list \<Rightarrow> tensor4 \<Rightarrow> tensor4 \<Rightarrow> mask3
     \<Rightarrow> string \<Rightarrow> log_dict \<Rightarrow> py_error + pyval \<times> log_dict" where
  "GRPO_denoiser_branch m cmp rnd encoder_outputs agents_future agents_future_valid
       agents_interested agents_future_41 gt_actions_normalized gt_actions_valid prefix logd =
     (let G = attr_group_size m;
          A = length (hd gt_actions_normalized);
          steps = diffusion_steps (draw_steps rnd) A;
          noised_action_normalized =
            noised_action_list (add_noise cmp) gt_actions_normalized (draw_noise rnd) G steps
      in if G = 0 then Inl (RuntimeError ''stack expects a non-empty TensorList'')
         else
           (case collect (map (\<lambda>(e, n, s, f). GRPO_forward_denoiser m cmp e n s f)
                           (denoiser_call_args G encoder_outputs noised_action_normalized steps
                              agents_future_41)) of
              Inl e \<Rightarrow> Inl e
            | Inr denoise_outputs_list \<Rightarrow>
                (let denoised_trajs = map out_denoised_trajs denoise_outputs_list;
                     denoised_actions = map out_denoised_actions denoise_outputs_list;
                     denoised_actions_old = map out_denoised_actions_old denoise_outputs_list
                 in case compute_grpo_trajectory_reward cmp denoised_trajs denoised_actions 5.0 2.0 of
                      Inl e \<Rightarrow> Inl e
                    | Inr rewards \<Rightarrow>
                        (let ratios = grpo_ratios denoised_actions denoised_actions_old
                                        gt_actions_normalized gt_actions_valid;
                             rewards = transpose rewards;
                             ratios = transpose ratios;
                             policy_loss_value = mean_value rewards (policy_loss rewards ratios);
                             kl_penalty_value =
                               mean_value ratios (kl_penalty (attr_beta m) ratios);
                             total_loss = tadd policy_loss_value kl_penalty_value;
                             logd = logd(prefix @ ''GRPO_loss'' \<mapsto> total_loss,
                                         prefix @ ''policy_loss'' \<mapsto> policy_loss_value,
                                         prefix @ ''kl_penalty'' \<mapsto> kl_penalty_value);
                             (denoise_ade, denoise_fde) =
                               calculate_metrics_denoise_group cmp denoised_trajs agents_future
                                 agents_future_valid agents_interested 8;
                             logd = logd(prefix @ ''denoise_ADE'' \<mapsto> denoise_ade,
                                         prefix @ ''denoise_FDE'' \<mapsto> denoise_fde)
                         in Inr (Tensor total_loss, logd)))))"

text \<open>\<^verbatim>\<open>DPR_GRPO.forward_and_get_loss\<close> with \<^verbatim>\<open>debug=False\<close>.\<close>

definition GRPO_forward_and_get_loss ::
  "settings \<Rightarrow> ('x, 'r) components \<Rightarrow> draws \<Rightarrow> 'x batch \<Rightarrow> string
     \<Rightarrow> py_error + pyval \<times> log_dict" where
  "GRPO_forward_and_get_loss m cmp rnd batch prefix =
     (let agents_future = map (take (attr_agents_len m)) (batch_agents_future batch);
          agents_future_valid = future_valid agents_future;
          agents_interested = map (take (attr_agents_len m)) (batch_agents_interested batch);
          anchors = map (take (attr_agents_len m)) (batch_anchors batch);
          (gt_actions, gt_actions_valid) =
            inverse_kinematics cmp agents_future agents_future_valid (attr_action_len m);
          agents_future_41 = downsample_future agents_future;
          gt_actions_normalized = normalize_actions m gt_actions;
          logd = Map.empty;
          total_loss = PyInt 0;
          encoder_outputs = encoder_net cmp batch
      in case (if attr_train_denoiser m
               then GRPO_denoiser_branch m cmp rnd encoder_outputs agents_future
                      agents_future_valid agents_interested agents_future_41
                      gt_actions_normalized gt_actions_valid prefix logd
               else Inr (total_loss, logd)) of
           Inl e \<Rightarrow> Inl e
         | Inr (total_loss, logd) \<Rightarrow>
             (case (if attr_train_predictor m
                    then predictor_branch m cmp encoder_outputs agents_future
                           agents_future_valid anchors agents_interested prefix total_loss logd
                    else Inr (total_loss, logd)) of
                Inl e \<Rightarrow> Inl e
              | Inr (total_loss, logd) \<Rightarrow>
                  (case item total_loss of
                     Inl e \<Rightarrow> Inl e
                   | Inr v \<Rightarrow> Inr (total_loss, logd(prefix @ ''loss'' \<mapsto> v)))))"

subsection \<open>A small instance\<close>

text \<open>
  One batch element with one agent, one future step, one anchor and a group of two. The
  collaborators are the simplest functions of the right shapes: the networks return their
  noisy input, the scheduler adds no noise and \<^verbatim>\<open>q_x0\<close> hands the model output back
  whatever the prediction type, the roll-out ends at the ground-truth state.
\<close>

definition example_cfg :: "bool option \<Rightarrow> bool option \<Rightarrow> string option \<Rightarrow> cfg" where
  "example_cfg denoiser_flag predictor_flag prediction_type =
     \<lparr>cfg_agents_len = 1, cfg_action_len = 1, cfg_action_mean = [0, 0], cfg_action_std = [1, 1],
      cfg_train_denoiser = denoiser_flag, cfg_train_predictor = None,
      cfg_with_predictor = predictor_flag, cfg_prediction_type = prediction_type,
      cfg_replay_buffer = None, cfg_group_size = Some 2, cfg_beta = None\<rparr>"

definition example_batch :: "unit batch" where
  "example_batch =
     \<lparr>batch_agents_future = [[[[0, 0, 0, 0, 0], [1, 0, 0, 0, 0]]]],
      batch_agents_interested = [[1]],
      batch_anchors = [[[[1, 0]]]],
      batch_scene = ()\<rparr>"

definition example_components :: "(unit, unit) components" where
  "example_components =
     \<lparr>encoder_net = (\<lambda>b. \<lparr>enc_agents = [[[[0, 0, 0, 0, 0]]]], enc_rest = ()\<rparr>),
      denoiser_net = (\<lambda>e x t f. x),
      reference_net = (\<lambda>e x t f. x),
      predictor_net = (\<lambda>e. ([[[[[0, 0]]]]], [[[0]]])),
      q_x0 = (\<lambda>out t x p. Inr out),
      add_noise = (\<lambda>x n t. x),
      scheduler_step = (\<lambda>x t sample p. sample),
      get_noise = (\<lambda>x0 xt t n. (n, Fin 0)),
      roll_out = (\<lambda>c a k. [[[[1, 0, 0, 0, 0]]]]),
      roll_out_goal = (\<lambda>c a k. [[[[[1, 0, 0, 0, 0]]]]]),
      inverse_kinematics = (\<lambda>f v k. ([[[[0, 0]]]], [[[True]]])),
      to_global_frame = (\<lambda>a c. a),
      calculate_metrics_denoise = (\<lambda>d f v i k. (Fin 0, Fin 0)),
      calculate_metrics_denoise_group = (\<lambda>d f v i k. (Fin 0, Fin 0)),
      calculate_metrics_predict = (\<lambda>d f v i k. (Fin 0, Fin 0)),
      compute_grpo_trajectory_reward = (\<lambda>t a v c. Inr (map (\<lambda>x. [0]) t))\<rparr>"

definition example_draws :: draws where
  "example_draws = \<lparr>draw_steps = [0], draw_noise = (\<lambda>g. [[[[0, 0]]]])\<rparr>"

section \<open>Properties of the GRPO loss\<close>

subsection \<open>Sums over rectangular tensors\<close>

lemma sum_list_nth_lt: "sum_list xs = (\<Sum>i<length xs. (xs ! i :: real))"
  by (simp add: sum_list_sum_nth atLeast0LessThan)

lemma sum_concat_rect:
  assumes "rect xss B G"
  shows "sum_list (concat xss) = (\<Sum>b<B. \<Sum>g<G. (xss ! b ! g :: real))"
proof -
  have "sum_list (concat xss) = sum_list (map sum_list xss)"
    by (induction xss) simp_all
  also have "\<dots> = (\<Sum>b<length xss. sum_list (xss ! b))"
    by (simp add: sum_list_nth_lt)
  also have "\<dots> = (\<Sum>b<length xss. \<Sum>g<G. xss ! b ! g)"
    using assms by (intro sum.cong refl) (simp add: sum_list_nth_lt rect_def)
  finally show ?thesis
    using assms by (simp add: rect_def)
qed







subsection \<open>Advantages\<close>


lemma advantages_length: "length (advantages rewards) = length rewards"
  by (simp add: advantages_def group_mean_def)




subsection \<open>Total loss\<close>









text \<open>
  The clamp matters in the KL term too: with one batch element, rewards \<open>[1, 3]\<close>,
  ratios \<open>[20, 1]\<close> and \<open>beta = 0.1\<close> the KL term of the code is
  \<open>(19 - ln 10) / 2\<close>, with the logarithm of the ratio as it is it would be
  \<open>(19 - ln 20) / 2\<close>.
\<close>

lemma kl_term_uses_clamped_logarithm:
  "grpo_total_loss (1 / 10) [[1, 3]] [[20, 1]] \<noteq> total_loss_unclamped (1 / 10) [[1, 3]] [[20, 1]]"
  by (simp add: grpo_total_loss_def total_loss_unclamped_def policy_loss_def policy_loss_spec_def
      kl_penalty_def kl_div_def kl_div_unclamped_def mean_all_def mean_def zip_with2_def
      advantages_def group_mean_def log_ratios_def clamp_def)



subsection \<open>Action fidelity and ratio\<close>


lemma sum_concat_shape3:
  assumes "shape3 x A T D"
  shows "sum_list (concat (concat x)) = (\<Sum>a<A. \<Sum>t<T. \<Sum>d<D. (x ! a ! t ! d :: real))"
proof -
  have "sum_list (concat (concat x)) = sum_list (map (\<lambda>xa. sum_list (concat xa)) x)"
    by (induction x) simp_all
  also have "\<dots> = (\<Sum>a<length x. sum_list (concat (x ! a)))"
    by (simp add: sum_list_sum_nth atLeast0LessThan)
  also have "\<dots> = (\<Sum>a<length x. \<Sum>t<T. \<Sum>d<D. x ! a ! t ! d)"
    using assms by (intro sum.cong refl) (simp add: shape3_def sum_concat_rect)
  finally show ?thesis
    using assms by (simp add: shape3_def)
qed


lemma in_set_map2E:
  assumes "z \<in> set (map2 f xs ys)"
  obtains x y where "x \<in> set xs" and "y \<in> set ys" and "z = f x y"
proof -
  from assms obtain x y where "(x, y) \<in> set (zip xs ys)" and "z = f x y"
    by auto
  then show thesis
    using that by (auto dest: set_zip_leftD set_zip_rightD)
qed





lemma rect_nth: "rect xs T D \<Longrightarrow> t < T \<Longrightarrow> length (xs ! t) = D"
  by (simp add: rect_def)







subsection \<open>Shared diffusion timestep\<close>

lemma concat_replicate_single: "concat (replicate n [x]) = replicate n x"
  by (induction n) simp_all

lemma repeat_group_nth: "g < G \<Longrightarrow> repeat_group G x ! g = x"
  by (simp add: repeat_group_def concat_replicate_single)

lemma diffusion_steps_eq: "diffusion_steps draws A = map (\<lambda>t. replicate A [[t]]) draws"
  by (simp add: diffusion_steps_def concat_replicate_single comp_def)

lemma view_BA_diffusion_steps: "view_BA (diffusion_steps draws A) = map (replicate A) draws"
  by (simp add: diffusion_steps_eq view_BA_def comp_def)

lemma denoiser_call_args_nth:
  assumes "g < G"
  shows "denoiser_call_args G enc (noised_action_list noise_fn gt randn G steps) steps fut ! g
       = (enc, noise_fn gt (randn g) steps, view_BA steps, fut)"
  using assms by (simp add: denoiser_call_args_def noised_action_list_def repeat_group_nth Let_def)

text \<open>
  Claim C8. The timestep tensor is built from one draw per batch element, copied to every
  agent, and the same tensor is handed to every member of the group: for two members
  \<open>g1\<close> and \<open>g2\<close> the timesteps are identical, every agent of batch element \<open>b\<close>
  carries the draw of \<open>b\<close>, and the arguments of the two denoiser calls differ only in
  the noise draw that entered \<^verbatim>\<open>add_noise\<close>.
\<close>

theorem grpo_group_shares_timestep:
  assumes "g1 < G" and "g2 < G"
  shows "repeat_group G (diffusion_steps draws A) ! g1 = repeat_group G (diffusion_steps draws A) ! g2
       \<and> (\<forall>b<length draws. \<forall>a<A. diffusion_steps draws A ! b ! a = [[draws ! b]])
       \<and> denoiser_call_args G enc
             (noised_action_list noise_fn gt randn G (diffusion_steps draws A))
             (diffusion_steps draws A) fut ! g1
           = (enc, noise_fn gt (randn g1) (diffusion_steps draws A), map (replicate A) draws, fut)
       \<and> denoiser_call_args G enc
             (noised_action_list noise_fn gt randn G (diffusion_steps draws A))
             (diffusion_steps draws A) fut ! g2
           = (enc, noise_fn gt (randn g2) (diffusion_steps draws A), map (replicate A) draws, fut)"
proof -
  have "\<forall>b<length draws. \<forall>a<A. diffusion_steps draws A ! b ! a = [[draws ! b]]"
    by (simp add: diffusion_steps_eq)
  then show ?thesis
    using assms
    by (simp add: repeat_group_nth denoiser_call_args_nth view_BA_diffusion_steps)
qed

theorem grpo_group_shares_timestep_witness:
  "repeat_group 3 (diffusion_steps [7, 2] 2) ! 0 = repeat_group 3 (diffusion_steps [7, 2] 2) ! 2
   \<and> diffusion_steps [7, 2] 2 = [[[[7]], [[7]]], [[[2]], [[2]]]]
   \<and> map (\<lambda>(e, n, s, f). s)
        (denoiser_call_args 3 () (noised_action_list (\<lambda>x n s. n) [] (\<lambda>g. [[[[real g]]]]) 3
           (diffusion_steps [7, 2] 2)) (diffusion_steps [7, 2] 2) [])
      = [[[7, 7], [2, 2]], [[7, 7], [2, 2]], [[7, 7], [2, 2]]]"
  using grpo_group_shares_timestep [of 0 3 2 "[7, 2]" 2 "()" "\<lambda>x n s. n" "[]" "\<lambda>g. [[[[real g]]]]" "[]"]
  by (simp add: diffusion_steps_def denoiser_call_args_def noised_action_list_def
      repeat_group_def view_BA_def numeral_2_eq_2 numeral_3_eq_3 upt_rec)

section \<open>Properties of the supervised losses\<close>

subsection \<open>Empty masks\<close>

lemma sum_list_zero: "(\<forall>x\<in>set xs. x = (0::real)) \<Longrightarrow> sum_list xs = 0"
  by (induction xs) simp_all

lemma count3_zero_iff:
  "count3 m = 0 \<longleftrightarrow> (\<forall>mb\<in>set m. \<forall>ma\<in>set mb. \<forall>v\<in>set ma. \<not> v)"
  by (auto simp: count3_def filter_empty_conv)

lemma sum3_mul_mask_zero:
  assumes "count3 m = 0"
  shows "sum3 (mul_mask x m) = 0"
proof -
  have "u = 0" if "u \<in> set (concat (concat (mul_mask x m)))" for u
  proof -
    from that obtain zb za where zb: "zb \<in> set (mul_mask x m)" and za: "za \<in> set zb"
      and u: "u \<in> set za"
      by auto
    from zb obtain xb mb where "mb \<in> set m"
      and zb_eq: "zb = map2 (map2 (\<lambda>u b. u * of_bool b)) xb mb"
      unfolding mul_mask_def map2_3_def by (rule in_set_map2E)
    from za obtain xa ma where "ma \<in> set mb" and za_eq: "za = map2 (\<lambda>u b. u * of_bool b) xa ma"
      unfolding zb_eq by (rule in_set_map2E)
    from u obtain ux v where "v \<in> set ma" and "u = ux * of_bool v"
      unfolding za_eq by (rule in_set_map2E)
    with assms \<open>mb \<in> set m\<close> \<open>ma \<in> set mb\<close> show ?thesis
      by (auto simp: count3_zero_iff)
  qed
  then show ?thesis
    unfolding sum3_def by (intro sum_list_zero) blast
qed

lemma interest_mask_count_zero_iff:
  assumes "length valid = length interested"
    and "\<forall>b<length valid. length (valid ! b) = length (interested ! b)"
  shows "count3 (interest_mask valid interested) = 0
     \<longleftrightarrow> (\<forall>b<length valid. \<forall>a<length (valid ! b). \<forall>t<length (valid ! b ! a).
            \<not> (valid ! b ! a ! t \<and> 0 < interested ! b ! a))"
proof -
  have len: "length (interest_mask valid interested) = length valid"
    using assms(1) by (simp add: interest_mask_def)
  have nth_b: "interest_mask valid interested ! b
      = map2 (\<lambda>v i. map (\<lambda>vt. vt \<and> 0 < i) v) (valid ! b) (interested ! b)"
    if "b < length valid" for b
    using that assms(1) by (simp add: interest_mask_def)
  have nth_a: "interest_mask valid interested ! b ! a
      = map (\<lambda>vt. vt \<and> 0 < interested ! b ! a) (valid ! b ! a)"
    if "b < length valid" "a < length (valid ! b)" for b a
    using that assms(2) by (simp add: nth_b)
  have lena: "length (interest_mask valid interested ! b) = length (valid ! b)"
    if "b < length valid" for b
    using that assms(2) by (simp add: nth_b)
  show ?thesis
    unfolding count3_zero_iff
    by (simp add: all_set_conv_all_nth len lena nth_a)
qed

lemma future_mask_count_zero:
  assumes "length valid = length interested"
    and "\<forall>b<length valid. length (valid ! b) = length (interested ! b)"
    and "\<forall>b<length valid. \<forall>a<length (valid ! b). \<forall>t<length (valid ! b ! a).
            0 < t \<longrightarrow> \<not> (valid ! b ! a ! t \<and> 0 < interested ! b ! a)"
  shows "count3 (interest_mask (map (map (drop 1)) valid) interested) = 0"
proof -
  have "count3 (interest_mask (map (map (drop 1)) valid) interested) = 0
     \<longleftrightarrow> (\<forall>b<length (map (map (drop 1)) valid).
          \<forall>a<length (map (map (drop 1)) valid ! b).
          \<forall>t<length (map (map (drop 1)) valid ! b ! a).
            \<not> (map (map (drop 1)) valid ! b ! a ! t \<and> 0 < interested ! b ! a))"
    using assms(1,2) by (intro interest_mask_count_zero_iff) simp_all
  also have "\<dots>"
  proof (intro allI impI)
    fix b a t
    assume b: "b < length (map (map (drop 1)) valid)"
      and a: "a < length (map (map (drop 1)) valid ! b)"
      and t: "t < length (map (map (drop 1)) valid ! b ! a)"
    then have "b < length valid" and "a < length (valid ! b)" and "Suc t < length (valid ! b ! a)"
      by simp_all
    with assms(3) have "\<not> (valid ! b ! a ! Suc t \<and> 0 < interested ! b ! a)"
      by simp
    then show "\<not> (map (map (drop 1)) valid ! b ! a ! t \<and> 0 < interested ! b ! a)"
      using \<open>b < length valid\<close> \<open>a < length (valid ! b)\<close> \<open>Suc t < length (valid ! b ! a)\<close>
      by simp
  qed
  finally show ?thesis .
qed

text \<open>
  Claim C9. Both losses divide the masked sum by the sum of the mask and nothing guards a
  zero denominator: when the mask has no true entry, the masked sum is 0 as well and each
  returned mean is the result of \<open>0 / 0\<close>, the value \<open>NaN\<close>. For the denoise loss the
  mask is empty exactly when no agent is at once valid at a future step and interested.
\<close>

theorem masked_loss_zero_denominator:
  "(count3 (interest_mask (map (map (drop 1)) agents_future_valid) agents_interested) = 0 \<longrightarrow>
      denoise_loss denoised_trajs agents_future agents_future_valid agents_interested = (NaN, NaN))
   \<and> (count3 (interest_mask actions_valid agents_interested) = 0 \<longrightarrow>
      action_loss actions actions_gt actions_valid agents_interested = NaN)
   \<and> (length agents_future_valid = length agents_interested
      \<and> (\<forall>b<length agents_future_valid.
             length (agents_future_valid ! b) = length (agents_interested ! b))
      \<and> (\<forall>b<length agents_future_valid. \<forall>a<length (agents_future_valid ! b).
           \<forall>t<length (agents_future_valid ! b ! a).
             0 < t \<longrightarrow> \<not> (agents_future_valid ! b ! a ! t \<and> 0 < agents_interested ! b ! a)) \<longrightarrow>
      denoise_loss denoised_trajs agents_future agents_future_valid agents_interested = (NaN, NaN))"
proof -
  have d: "denoise_loss denoised_trajs agents_future agents_future_valid agents_interested
         = (NaN, NaN)"
    if "count3 (interest_mask (map (map (drop 1)) agents_future_valid) agents_interested) = 0"
    using that by (simp add: denoise_loss_def Let_def sum3_mul_mask_zero tdiv_def)
  have a: "action_loss actions actions_gt actions_valid agents_interested = NaN"
    if "count3 (interest_mask actions_valid agents_interested) = 0"
    using that by (simp add: action_loss_def Let_def sum3_mul_mask_zero tdiv_def)
  show ?thesis
  proof (intro conjI impI)
    assume "length agents_future_valid = length agents_interested
      \<and> (\<forall>b<length agents_future_valid.
             length (agents_future_valid ! b) = length (agents_interested ! b))
      \<and> (\<forall>b<length agents_future_valid. \<forall>a<length (agents_future_valid ! b).
           \<forall>t<length (agents_future_valid ! b ! a).
             0 < t \<longrightarrow> \<not> (agents_future_valid ! b ! a ! t \<and> 0 < agents_interested ! b ! a))"
    then have "count3 (interest_mask (map (map (drop 1)) agents_future_valid) agents_interested) = 0"
      by (intro future_mask_count_zero) simp_all
    then show "denoise_loss denoised_trajs agents_future agents_future_valid agents_interested
         = (NaN, NaN)"
      by (rule d)
  qed (rule d a, assumption)+
qed

theorem masked_loss_zero_denominator_witness:
  "count3 (interest_mask (map (map (drop 1)) [[[True, True]]]) [[0]]) = 0
   \<and> denoise_loss [[[[1, 2, 1 / 2]]]] [[[[0, 0, 0], [1, 1, 1 / 4]]]] [[[True, True]]] [[0]]
       = (NaN, NaN)
   \<and> count3 (interest_mask [[[True]]] [[0]]) = 0
   \<and> action_loss [[[[1, 2]]]] [[[[0, 0]]]] [[[True]]] [[0]] = NaN"
proof -
  have c1: "count3 (interest_mask (map (map (drop 1)) [[[True, True]]]) [[0]]) = 0"
    and c2: "count3 (interest_mask [[[True]]] [[0]]) = 0"
    by (simp_all add: count3_def interest_mask_def)
  note t = masked_loss_zero_denominator [of "[[[True, True]]]" "[[0]]" "[[[[1, 2, 1 / 2]]]]"
      "[[[[0, 0, 0], [1, 1, 1 / 4]]]]" "[[[True]]]" "[[[[1, 2]]]]" "[[[[0, 0]]]]"]
  show ?thesis
    using t [THEN conjunct1, THEN mp, OF c1] t [THEN conjunct2, THEN conjunct1, THEN mp, OF c2]
      c1 c2
    by (intro conjI)
qed

subsection \<open>Heading wrap\<close>

lemma cos_remainder_bounds:
  assumes "0 < x" and "0 < n"
  shows "(\<Sum>m<n. cos_coeff m * x ^ m) - x ^ n / fact n \<le> cos x"
    and "cos x \<le> (\<Sum>m<n. cos_coeff m * x ^ m) + x ^ n / fact n"
proof -
  from Maclaurin_cos_expansion2 [OF assms] obtain t where
    c: "cos x = (\<Sum>m<n. cos_coeff m * x ^ m) + (cos (t + 1/2 * real n * pi) / fact n) * x ^ n"
    by blast
  define r where "r = cos (t + 1/2 * real n * pi) * (x ^ n / fact n)"
  have c': "cos x = (\<Sum>m<n. cos_coeff m * x ^ m) + r"
    unfolding c r_def by simp
  have nn: "0 \<le> x ^ n / fact n"
    using assms(1) by simp
  have "- 1 * (x ^ n / fact n) \<le> r"
    unfolding r_def using nn by (intro mult_right_mono) simp_all
  moreover have "r \<le> 1 * (x ^ n / fact n)"
    unfolding r_def using nn by (intro mult_right_mono) simp_all
  ultimately show "(\<Sum>m<n. cos_coeff m * x ^ m) - x ^ n / fact n \<le> cos x"
    and "cos x \<le> (\<Sum>m<n. cos_coeff m * x ^ m) + x ^ n / fact n"
    unfolding c' by simp_all
qed

lemma sum_less_10:
  "(\<Sum>m<10::nat. f m) = f 0 + f 1 + f 2 + f 3 + f 4 + f 5 + f 6 + f 7 + f 8 + (f 9 :: real)"
  by (simp add: eval_nat_numeral)

lemma sum_less_12:
  "(\<Sum>m<12::nat. f m)
     = f 0 + f 1 + f 2 + f 3 + f 4 + f 5 + f 6 + f 7 + f 8 + f 9 + f 10 + (f 11 :: real)"
  by (simp add: eval_nat_numeral)

lemma cos_coeff_values:
  "cos_coeff 0 = 1" "cos_coeff 1 = 0" "cos_coeff 2 = - 1 / 2" "cos_coeff 3 = 0"
  "cos_coeff 4 = 1 / 24" "cos_coeff 5 = 0" "cos_coeff 6 = - 1 / 720" "cos_coeff 7 = 0"
  "cos_coeff 8 = 1 / 40320" "cos_coeff 9 = 0" "cos_coeff 10 = - 1 / 3628800" "cos_coeff 11 = 0"
  by (simp_all add: cos_coeff_def fact_numeral)

lemma cos_15707_pos: "0 < cos (15707 / 10000 :: real)"
proof -
  have "0 < (\<Sum>m<10. cos_coeff m * (15707 / 10000 :: real) ^ m) - (15707 / 10000) ^ 10 / fact 10"
    unfolding sum_less_10 cos_coeff_values by (simp add: fact_numeral power_divide)
  also have "\<dots> \<le> cos (15707 / 10000)"
    by (rule cos_remainder_bounds) simp_all
  finally show ?thesis .
qed

lemma cos_15708_neg: "cos (15708 / 10000 :: real) < 0"
proof -
  have "cos (15708 / 10000 :: real)
      \<le> (\<Sum>m<12. cos_coeff m * (15708 / 10000 :: real) ^ m) + (15708 / 10000) ^ 12 / fact 12"
    by (rule cos_remainder_bounds) simp_all
  also have "\<dots> < 0"
    unfolding sum_less_12 cos_coeff_values by (simp add: fact_numeral power_divide)
  finally show ?thesis .
qed

lemma pi_bounds: "31414 / 10000 < pi" "pi < 31416 / 10000"
proof -
  have "15707 / 10000 < pi / 2"
  proof (rule ccontr)
    assume "\<not> 15707 / 10000 < pi / 2"
    then have "pi / 2 \<le> 15707 / 10000" by simp
    moreover have "(15707 / 10000 :: real) \<le> pi"
      using pi_ge_two by simp
    ultimately have "cos (15707 / 10000) \<le> cos (pi / 2)"
      by (intro cos_monotone_0_pi_le) simp_all
    with cos_15707_pos show False by simp
  qed
  then show "31414 / 10000 < pi" by simp
  have "pi / 2 < 15708 / 10000"
  proof (rule ccontr)
    assume "\<not> pi / 2 < 15708 / 10000"
    then have "15708 / 10000 \<le> pi / 2" by simp
    then have "0 \<le> cos (15708 / 10000 :: real)"
      by (intro cos_ge_zero) simp_all
    with cos_15708_neg show False by simp
  qed
  then show "pi < 31416 / 10000" by simp
qed


lemma sqrt_one_plus_tan_sq:
  assumes "c \<noteq> 0" and "s\<^sup>2 + c\<^sup>2 = (1::real)"
  shows "sqrt (1 + (s / c)\<^sup>2) = 1 / \<bar>c\<bar>"
proof -
  have "1 + (s / c)\<^sup>2 = (s\<^sup>2 + c\<^sup>2) / c\<^sup>2"
    using assms(1) by (simp add: power_divide add_divide_distrib)
  also have "\<dots> = (1 / \<bar>c\<bar>)\<^sup>2"
    by (simp add: assms(2) power_divide)
  finally show ?thesis
    by (simp add: real_sqrt_divide)
qed

lemma cos_sin_arctan_ratio:
  assumes "c \<noteq> 0" and "s\<^sup>2 + c\<^sup>2 = (1::real)"
  shows "cos (arctan (s / c)) = \<bar>c\<bar>" and "sin (arctan (s / c)) = s / c * \<bar>c\<bar>"
  using assms by (simp_all add: cos_arctan sin_arctan sqrt_one_plus_tan_sq)

lemma atan2_sin_cos:
  "- pi < atan2 (sin e) (cos e) \<and> atan2 (sin e) (cos e) \<le> pi
   \<and> sin (atan2 (sin e) (cos e)) = sin e \<and> cos (atan2 (sin e) (cos e)) = cos e"
proof -
  have unit: "(sin e)\<^sup>2 + (cos e)\<^sup>2 = 1"
    by simp
  consider (pos) "0 < cos e" | (neg_up) "cos e < 0" "0 \<le> sin e" | (neg_down) "cos e < 0" "sin e < 0"
    | (zero) "cos e = 0"
    by linarith
  then show ?thesis
  proof cases
    case pos
    then have a: "atan2 (sin e) (cos e) = arctan (sin e / cos e)"
      by (simp add: atan2_def)
    have "cos e \<noteq> 0" using pos by simp
    note cs = cos_sin_arctan_ratio [OF this unit]
    have b: "- (pi / 2) < arctan (sin e / cos e)" "arctan (sin e / cos e) < pi / 2"
      by (rule arctan_lbound) (rule arctan_ubound)
    have "- pi < arctan (sin e / cos e)" "arctan (sin e / cos e) \<le> pi"
      using b pi_gt_zero by linarith+
    then show ?thesis
      unfolding a using pos by (simp add: cs)
  next
    case neg_up
    then have a: "atan2 (sin e) (cos e) = arctan (sin e / cos e) + pi"
      by (simp add: atan2_def)
    have "cos e \<noteq> 0" using neg_up by simp
    note cs = cos_sin_arctan_ratio [OF this unit]
    have "sin e / cos e \<le> 0"
      using neg_up by (simp add: divide_nonneg_neg)
    then have "arctan (sin e / cos e) \<le> 0"
      by (simp add: arctan_le_zero_iff)
    moreover have "- (pi / 2) < arctan (sin e / cos e)"
      by (rule arctan_lbound)
    ultimately have "- pi < arctan (sin e / cos e) + pi" "arctan (sin e / cos e) + pi \<le> pi"
      using pi_gt_zero by linarith+
    then show ?thesis
      unfolding a using neg_up by (simp add: cs)
  next
    case neg_down
    then have a: "atan2 (sin e) (cos e) = arctan (sin e / cos e) - pi"
      by (simp add: atan2_def)
    have "cos e \<noteq> 0" using neg_down by simp
    note cs = cos_sin_arctan_ratio [OF this unit]
    have "0 < sin e / cos e"
      using neg_down by (simp add: divide_neg_neg)
    then have "0 < arctan (sin e / cos e)"
      by simp
    moreover have "arctan (sin e / cos e) < pi / 2"
      by (rule arctan_ubound)
    ultimately have "- pi < arctan (sin e / cos e) - pi" "arctan (sin e / cos e) - pi \<le> pi"
      using pi_gt_zero by linarith+
    moreover have "sin (arctan (sin e / cos e) - pi) = - sin (arctan (sin e / cos e))"
      "cos (arctan (sin e / cos e) - pi) = - cos (arctan (sin e / cos e))"
      by (simp_all add: sin_diff cos_diff)
    ultimately show ?thesis
      unfolding a using neg_down by (simp add: cs)
  next
    case zero
    with unit have "(sin e)\<^sup>2 = 1"
      by simp
    then have "sin e = 1 \<or> sin e = - 1"
      by (simp add: power2_eq_1_iff)
    then show ?thesis
    proof
      assume "sin e = 1"
      then show ?thesis
        using zero pi_gt_zero by (simp add: atan2_def)
    next
      assume "sin e = - 1"
      moreover have "- (pi / 2) \<le> pi"
        using pi_gt_zero by linarith
      ultimately show ?thesis
        using zero by (simp add: atan2_def)
    qed
  qed
qed

lemma atan2_boundary_example:
  "atan2 (sin (- 3.13 - 3.13)) (cos (- 3.13 - 3.13)) = 2 * pi - 6.26"
proof -
  let ?w = "2 * pi - 6.26 :: real"
  have r: "- (pi / 2) < ?w" "?w < pi / 2"
    using pi_bounds by simp_all
  have s: "sin (- 3.13 - 3.13 :: real) = sin ?w" and c: "cos (- 3.13 - 3.13 :: real) = cos ?w"
    using sin_periodic [of "- 6.26"] cos_periodic [of "- 6.26"] by (simp_all add: add.commute)
  have "0 < cos ?w"
    using r by (rule cos_gt_zero_pi)
  then have "atan2 (sin ?w) (cos ?w) = arctan (tan ?w)"
    by (simp add: atan2_def tan_def)
  also have "\<dots> = ?w"
    using r by (rule arctan_tan)
  finally show ?thesis
    by (simp only: s c)
qed


lemma denoise_loss_single:
  "denoise_loss [[[[x, y, pred]]]] [[[[x0, y0, h0], [x', y', true]]]] [[[v0, True]]] [[1]]
     = (Fin (smooth_l1 x x' + smooth_l1 y y'),
        Fin \<bar>atan2 (sin (pred - true)) (cos (pred - true))\<bar>)"
  by (simp add: denoise_loss_def map2_3_def mul_mask_def interest_mask_def sum3_def count3_def
      tdiv_def numeral_2_eq_2)

text \<open>
  Claim C5, as stated, fails in its number: with true heading 3.13 and predicted heading
  -3.13 the yaw loss of the agent is \<open>2 * pi - 6.26\<close>, which is about 0.0232 and
  differs from 0.003 by more than 0.019.
\<close>

theorem heading_wrap_value_counterexample:
  "snd (denoise_loss [[[[0, 0, - 3.13]]]] [[[[1, 1, 0], [0, 0, 3.13]]]] [[[True, True]]] [[1]])
     = Fin (2 * pi - 6.26)
   \<and> \<not> \<bar>(2 * pi - 6.26) - 0.003\<bar> < 0.019"
proof -
  have "\<not> \<bar>(2 * pi - 6.26) - 0.003\<bar> < 0.019"
    using pi_bounds by simp
  moreover have "\<bar>2 * pi - 6.26\<bar> = 2 * pi - 6.26"
    using pi_bounds by simp
  ultimately show ?thesis
    by (simp only: denoise_loss_single atan2_boundary_example snd_conv simp_thms)
qed

lemma shape3_lengths:
  assumes "shape3 x B A T"
  shows "length x = B"
    and "\<And>b. b < B \<Longrightarrow> length (x ! b) = A"
    and "\<And>b a. b < B \<Longrightarrow> a < A \<Longrightarrow> length (x ! b ! a) = T"
proof -
  show "length x = B"
    using assms by (simp add: shape3_def)
  show l: "length (x ! b) = A" if "b < B" for b
    using assms that by (simp add: shape3_def rect_def)
  show "length (x ! b ! a) = T" if "b < B" "a < A" for b a
  proof -
    have "rect (x ! b) A T"
      using assms that(1) by (simp add: shape3_def)
    then show ?thesis
      using that(2) by (simp add: rect_def)
  qed
qed

lemma shape3_I:
  assumes "length x = B" and "\<And>b. b < B \<Longrightarrow> length (x ! b) = A"
    and "\<And>b a. b < B \<Longrightarrow> a < A \<Longrightarrow> length (x ! b ! a) = T"
  shows "shape3 x B A T"
  using assms unfolding shape3_def rect_def by (auto simp: in_set_conv_nth)

lemma map2_3_shape3:
  assumes "shape3 x B A T" and "shape3 y B A T"
  shows "shape3 (map2_3 f x y) B A T"
    and "\<And>b a t. b < B \<Longrightarrow> a < A \<Longrightarrow> t < T \<Longrightarrow>
           map2_3 f x y ! b ! a ! t = f (x ! b ! a ! t) (y ! b ! a ! t)"
proof -
  note lx = shape3_lengths [OF assms(1)] and ly = shape3_lengths [OF assms(2)]
  show "shape3 (map2_3 f x y) B A T"
    by (rule shape3_I) (simp_all add: map2_3_def lx ly)
  show "map2_3 f x y ! b ! a ! t = f (x ! b ! a ! t) (y ! b ! a ! t)"
    if "b < B" "a < A" "t < T" for b a t
    using that by (simp add: map2_3_def lx ly)
qed

lemma map3_shape3:
  assumes "shape3 x B A T"
  shows "shape3 (map (map (map f)) x) B A T"
    and "\<And>b a t. b < B \<Longrightarrow> a < A \<Longrightarrow> t < T \<Longrightarrow>
           map (map (map f)) x ! b ! a ! t = f (x ! b ! a ! t)"
proof -
  note lx = shape3_lengths [OF assms(1)]
  show "shape3 (map (map (map f)) x) B A T"
    by (rule shape3_I) (simp_all add: lx)
  show "map (map (map f)) x ! b ! a ! t = f (x ! b ! a ! t)"
    if "b < B" "a < A" "t < T" for b a t
    using that by (simp add: lx)
qed

lemma interest_mask_shape3:
  assumes "shape3 valid B A T" and "rect interested B A"
  shows "shape3 (interest_mask valid interested) B A T"
    and "\<And>b a t. b < B \<Longrightarrow> a < A \<Longrightarrow> t < T \<Longrightarrow>
           interest_mask valid interested ! b ! a ! t
             = (valid ! b ! a ! t \<and> 0 < interested ! b ! a)"
proof -
  note lv = shape3_lengths [OF assms(1)]
  have li: "length interested = B" "\<And>b. b < B \<Longrightarrow> length (interested ! b) = A"
    using assms(2) by (simp_all add: rect_def)
  show "shape3 (interest_mask valid interested) B A T"
    by (rule shape3_I) (simp_all add: interest_mask_def lv li)
  show "interest_mask valid interested ! b ! a ! t
             = (valid ! b ! a ! t \<and> 0 < interested ! b ! a)"
    if "b < B" "a < A" "t < T" for b a t
    using that by (simp add: interest_mask_def lv li)
qed

lemma sum3_shape3:
  assumes "shape3 x B A T"
  shows "sum3 x = (\<Sum>b<B. \<Sum>a<A. \<Sum>t<T. x ! b ! a ! t)"
  unfolding sum3_def by (rule sum_concat_shape3 [OF assms])

lemma future_shape3:
  assumes "shape3 agents_future B A (Suc T)"
  shows "shape3 (map (map (\<lambda>traj. map (take 3) (drop 1 traj))) agents_future) B A T"
    and "\<And>b a t. b < B \<Longrightarrow> a < A \<Longrightarrow> t < T \<Longrightarrow>
           map (map (\<lambda>traj. map (take 3) (drop 1 traj))) agents_future ! b ! a ! t
             = take 3 (agents_future ! b ! a ! Suc t)"
proof -
  note l = shape3_lengths [OF assms(1)]
  show "shape3 (map (map (\<lambda>traj. map (take 3) (drop 1 traj))) agents_future) B A T"
    by (rule shape3_I) (simp_all add: l)
  show "map (map (\<lambda>traj. map (take 3) (drop 1 traj))) agents_future ! b ! a ! t
             = take 3 (agents_future ! b ! a ! Suc t)"
    if "b < B" "a < A" "t < T" for b a t
    using that by (simp add: l)
qed

lemma valid_shape3:
  assumes "shape3 agents_future_valid B A (Suc T)"
  shows "shape3 (map (map (drop 1)) agents_future_valid) B A T"
    and "\<And>b a t. b < B \<Longrightarrow> a < A \<Longrightarrow> t < T \<Longrightarrow>
           map (map (drop 1)) agents_future_valid ! b ! a ! t
             = agents_future_valid ! b ! a ! Suc t"
proof -
  note l = shape3_lengths [OF assms(1)]
  show "shape3 (map (map (drop 1)) agents_future_valid) B A T"
    by (rule shape3_I) (simp_all add: l)
  show "map (map (drop 1)) agents_future_valid ! b ! a ! t = agents_future_valid ! b ! a ! Suc t"
    if "b < B" "a < A" "t < T" for b a t
    using that by (simp add: l)
qed

lemma denoise_loss_yaw:
  assumes "shape3 denoised_trajs B A T" and "shape3 agents_future B A (Suc T)"
    and "shape3 agents_future_valid B A (Suc T)" and "rect agents_interested B A"
  shows "snd (denoise_loss denoised_trajs agents_future agents_future_valid agents_interested)
       = tdiv (\<Sum>b<B. \<Sum>a<A. \<Sum>t<T.
                 \<bar>atan2 (sin (denoised_trajs ! b ! a ! t ! 2 - agents_future ! b ! a ! Suc t ! 2))
                        (cos (denoised_trajs ! b ! a ! t ! 2 - agents_future ! b ! a ! Suc t ! 2))\<bar>
                 * of_bool (agents_future_valid ! b ! a ! Suc t \<and> 0 < agents_interested ! b ! a))
              (real (count3 (interest_mask (map (map (drop 1)) agents_future_valid)
                               agents_interested)))"
proof -
  let ?fut = "map (map (\<lambda>traj. map (take 3) (drop 1 traj))) agents_future"
  let ?mask = "interest_mask (map (map (drop 1)) agents_future_valid) agents_interested"
  let ?err = "map2_3 (\<lambda>p q. p ! 2 - q ! 2) denoised_trajs ?fut"
  let ?wrapped = "map (map (map (\<lambda>e. atan2 (sin e) (cos e)))) ?err"
  let ?loss = "map (map (map abs)) ?wrapped"
  note f = future_shape3 [OF assms(2)]
  note v = valid_shape3 [OF assms(3)]
  note m = interest_mask_shape3 [OF v(1) assms(4)]
  note e = map2_3_shape3 [OF assms(1) f(1), where f = "\<lambda>p q. p ! 2 - q ! 2"]
  note w = map3_shape3 [OF e(1), where f = "\<lambda>e. atan2 (sin e) (cos e)"]
  note l = map3_shape3 [OF w(1), where f = abs]
  note y = map2_3_shape3 [OF l(1) m(1), where f = "\<lambda>u b. u * of_bool b"]
  have "sum3 (mul_mask ?loss ?mask)
      = (\<Sum>b<B. \<Sum>a<A. \<Sum>t<T.
                 \<bar>atan2 (sin (denoised_trajs ! b ! a ! t ! 2 - agents_future ! b ! a ! Suc t ! 2))
                        (cos (denoised_trajs ! b ! a ! t ! 2 - agents_future ! b ! a ! Suc t ! 2))\<bar>
                 * of_bool (agents_future_valid ! b ! a ! Suc t \<and> 0 < agents_interested ! b ! a))"
    unfolding mul_mask_def sum3_shape3 [OF y(1)]
  proof (intro sum.cong refl)
    fix b a t
    assume "b \<in> {..<B}" and "a \<in> {..<A}" and "t \<in> {..<T}"
    then have i: "b < B" "a < A" "t < T"
      by simp_all
    have t3: "take 3 q ! 2 = q ! 2" for q :: "real list"
      by simp
    show "map2_3 (\<lambda>u b. u * of_bool b) ?loss ?mask ! b ! a ! t
        = \<bar>atan2 (sin (denoised_trajs ! b ! a ! t ! 2 - agents_future ! b ! a ! Suc t ! 2))
                (cos (denoised_trajs ! b ! a ! t ! 2 - agents_future ! b ! a ! Suc t ! 2))\<bar>
          * of_bool (agents_future_valid ! b ! a ! Suc t \<and> 0 < agents_interested ! b ! a)"
      by (simp only: y(2) [OF i] l(2) [OF i] w(2) [OF i] e(2) [OF i] f(2) [OF i] m(2) [OF i]
          v(2) [OF i] t3)
  qed
  then show ?thesis
    by (simp add: denoise_loss_def Let_def mul_mask_def)
qed

text \<open>
  Claim C5, amended. The yaw loss of the denoise loss is the masked sum, over batch, agents
  and future steps, of the absolute value of \<open>atan2 (sin e) (cos e)\<close> for the raw
  difference \<open>e\<close> of predicted and true heading, divided by the sum of the mask. The
  wrapped angle lies in \<open>(-pi, pi]\<close> and has the sine and cosine of \<open>e\<close>. For true
  heading 3.13 and predicted heading -3.13 its magnitude is \<open>2 * pi - 6.26\<close>, between
  0.0228 and 0.0232, not about 6.26.
\<close>

theorem denoise_loss_heading_wrap:
  assumes "shape3 denoised_trajs B A T" and "shape3 agents_future B A (Suc T)"
    and "shape3 agents_future_valid B A (Suc T)" and "rect agents_interested B A"
  shows "snd (denoise_loss denoised_trajs agents_future agents_future_valid agents_interested)
       = tdiv (\<Sum>b<B. \<Sum>a<A. \<Sum>t<T.
                 \<bar>atan2 (sin (denoised_trajs ! b ! a ! t ! 2 - agents_future ! b ! a ! Suc t ! 2))
                        (cos (denoised_trajs ! b ! a ! t ! 2 - agents_future ! b ! a ! Suc t ! 2))\<bar>
                 * of_bool (agents_future_valid ! b ! a ! Suc t \<and> 0 < agents_interested ! b ! a))
              (real (count3 (interest_mask (map (map (drop 1)) agents_future_valid)
                               agents_interested)))
       \<and> - pi < atan2 (sin e) (cos e) \<and> atan2 (sin e) (cos e) \<le> pi
       \<and> sin (atan2 (sin e) (cos e)) = sin e \<and> cos (atan2 (sin e) (cos e)) = cos e
       \<and> \<bar>atan2 (sin (- 3.13 - 3.13)) (cos (- 3.13 - 3.13))\<bar> = 2 * pi - 6.26
       \<and> 0.0228 < 2 * pi - 6.26 \<and> 2 * pi - 6.26 < 0.0232"
proof -
  have b: "0.0228 < 2 * pi - 6.26" "2 * pi - 6.26 < 0.0232"
    using pi_bounds by simp_all
  then have a: "\<bar>atan2 (sin (- 3.13 - 3.13)) (cos (- 3.13 - 3.13))\<bar> = 2 * pi - 6.26"
    unfolding atan2_boundary_example by simp
  show ?thesis
    using denoise_loss_yaw [OF assms] atan2_sin_cos [of e] a b
    by (simp only: simp_thms)
qed

theorem denoise_loss_heading_wrap_witness:
  "shape3 [[[[0, 0, - 3.13 :: real]]]] 1 1 1
   \<and> snd (denoise_loss [[[[0, 0, - 3.13]]]] [[[[1, 1, 0], [0, 0, 3.13]]]] [[[True, True]]] [[1]])
       = Fin (2 * pi - 6.26)"
proof -
  have s: "shape3 [[[[0, 0, - 3.13 :: real]]]] 1 1 1"
    "shape3 [[[[1, 1, 0], [0, 0, 3.13 :: real]]]] 1 1 (Suc 1)"
    "shape3 [[[True, True]]] 1 1 (Suc 1)"
    "rect [[1 :: int]] 1 1"
    by (simp_all add: shape3_def rect_def)
  have c: "count3 (interest_mask (map (map (drop 1)) [[[True, True]]]) [[1]]) = 1"
    by (simp add: count3_def interest_mask_def)
  note t = denoise_loss_heading_wrap [OF s, THEN conjunct1]
  have "snd (denoise_loss [[[[0, 0, - 3.13]]]] [[[[1, 1, 0], [0, 0, 3.13]]]] [[[True, True]]] [[1]])
       = Fin \<bar>atan2 (sin (- 3.13 - 3.13)) (cos (- 3.13 - 3.13))\<bar>"
    unfolding t c by (simp add: tdiv_def)
  also have "\<bar>atan2 (sin (- 3.13 - 3.13)) (cos (- 3.13 - 3.13))\<bar> = 2 * pi - 6.26"
    unfolding atan2_boundary_example using pi_bounds by simp
  finally show ?thesis
    using s(1) by (intro conjI)
qed

subsection \<open>Anchor selection\<close>



lemma argmin_first: "j < argmin xs \<Longrightarrow> xs ! argmin xs < xs ! j"
proof (induction xs arbitrary: j rule: argmin.induct)
  case 1
  then show ?case by simp
next
  case (2 x)
  then show ?case by simp
next
  case (3 x y ys)
  let ?i = "argmin (y # ys)"
  from "3.prems" have nz: "\<not> x \<le> (y # ys) ! ?i"
    by (auto simp: Let_def split: if_splits)
  show ?case
  proof (cases j)
    case 0
    with nz show ?thesis
      by (simp add: Let_def)
  next
    case (Suc k)
    with "3.prems" nz have "k < ?i"
      by (simp add: Let_def)
    from "3.IH" [OF this] Suc nz show ?thesis
      by (simp add: Let_def)
  qed
qed






section \<open>Properties of the reference policy\<close>

lemma set_requires_grad_length [simp]: "length (set_requires_grad m b h) = length h"
  unfolding set_requires_grad_def by (induction m arbitrary: h) simp_all

lemma set_requires_grad_pdata [simp]: "pdata (set_requires_grad m b h ! a) = pdata (h ! a)"
  unfolding set_requires_grad_def
proof (induction m arbitrary: h)
  case Nil
  then show ?case by simp
next
  case (Cons x m)
  have "pdata (h[x := (h ! x)\<lparr>requires_grad := b\<rparr>] ! a) = pdata (h ! a)"
    by (cases "x < length h") (simp_all add: nth_list_update list_update_beyond)
  with Cons show ?case by simp
qed

lemma set_requires_grad_False_mono:
  "requires_grad (set_requires_grad m False h ! a) \<Longrightarrow> requires_grad (h ! a)"
  unfolding set_requires_grad_def
proof (induction m arbitrary: h)
  case Nil
  then show ?case by simp
next
  case (Cons x m)
  from Cons.IH [of "h[x := (h ! x)\<lparr>requires_grad := False\<rparr>]"] Cons.prems
  have "requires_grad (h[x := (h ! x)\<lparr>requires_grad := False\<rparr>] ! a)"
    by simp
  then show ?case
    by (cases "x < length h") (auto simp: nth_list_update list_update_beyond split: if_splits)
qed

lemma set_requires_grad_False_member:
  "a \<in> set m \<Longrightarrow> a < length h \<Longrightarrow> \<not> requires_grad (set_requires_grad m False h ! a)"
proof (induction m arbitrary: h)
  case Nil
  then show ?case by simp
next
  case (Cons x m)
  let ?h = "h[x := (h ! x)\<lparr>requires_grad := False\<rparr>]"
  have step: "set_requires_grad (x # m) False h = set_requires_grad m False ?h"
    by (simp add: set_requires_grad_def)
  show ?case
  proof (cases "a = x")
    case True
    with Cons.prems have "\<not> requires_grad (?h ! a)"
      by simp
    then show ?thesis
      unfolding step using set_requires_grad_False_mono by blast
  next
    case False
    with Cons.prems have "a \<in> set m" and "a < length ?h"
      by simp_all
    from Cons.IH [OF this] show ?thesis
      unfolding step .
  qed
qed

lemma optimizer_foldl:
  fixes upd :: "addr \<Rightarrow> real \<Rightarrow> real"
  defines "f \<equiv> \<lambda>h a. h[a := (h ! a)\<lparr>pdata := upd a (pdata (h ! a))\<rparr>]"
  shows "length (foldl f h ps) = length h"
    and "requires_grad (foldl f h ps ! a) = requires_grad (h ! a)"
    and "a \<notin> set ps \<Longrightarrow> foldl f h ps ! a = h ! a"
proof -
  show "length (foldl f h ps) = length h"
    by (induction ps arbitrary: h) (simp_all add: f_def)
  show "requires_grad (foldl f h ps ! a) = requires_grad (h ! a)"
  proof (induction ps arbitrary: h)
    case Nil
    then show ?case by simp
  next
    case (Cons x ps)
    have "requires_grad (f h x ! a) = requires_grad (h ! a)"
      unfolding f_def by (cases "x < length h") (simp_all add: nth_list_update list_update_beyond)
    with Cons show ?case by simp
  qed
  show "foldl f h ps ! a = h ! a" if "a \<notin> set ps"
    using that by (induction ps arbitrary: h) (simp_all add: f_def)
qed

lemma load_foldl:
  fixes xs :: "(addr \<times> real) list"
  defines "f \<equiv> \<lambda>h (a, v). h[a := (h ! a)\<lparr>pdata := v\<rparr>]"
  shows "length (foldl f h xs) = length h"
    and "requires_grad (foldl f h xs ! a) = requires_grad (h ! a)"
    and "a \<notin> fst ` set xs \<Longrightarrow> foldl f h xs ! a = h ! a"
proof -
  show "length (foldl f h xs) = length h"
    by (induction xs arbitrary: h) (simp_all add: f_def split_beta)
  show "requires_grad (foldl f h xs ! a) = requires_grad (h ! a)"
  proof (induction xs arbitrary: h)
    case Nil
    then show ?case by simp
  next
    case (Cons x xs)
    have "requires_grad (f h x ! a) = requires_grad (h ! a)"
      unfolding f_def
      by (cases "fst x < length h") (simp_all add: nth_list_update list_update_beyond split_beta)
    with Cons show ?case by simp
  qed
  show "foldl f h xs ! a = h ! a" if "a \<notin> fst ` set xs"
    using that by (induction xs arbitrary: h) (auto simp: f_def split_beta)
qed

lemma load_state_dict_length [simp]: "length (load_state_dict m d h) = length h"
  unfolding load_state_dict_def by (rule load_foldl(1))

lemma load_state_dict_requires_grad [simp]:
  "requires_grad (load_state_dict m d h ! a) = requires_grad (h ! a)"
  unfolding load_state_dict_def by (rule load_foldl(2))

lemma load_state_dict_other: "a \<notin> set m \<Longrightarrow> load_state_dict m d h ! a = h ! a"
  unfolding load_state_dict_def by (rule load_foldl(3)) (auto dest: set_zip_leftD)

lemma load_state_dict_pdata:
  assumes "distinct m" and "length d = length m" and "\<forall>a\<in>set m. a < length h"
    and "i < length m"
  shows "pdata (load_state_dict m d h ! (m ! i)) = d ! i"
  using assms
proof (induction m arbitrary: d h i)
  case Nil
  then show ?case by simp
next
  case (Cons x m)
  then obtain v d' where d: "d = v # d'"
    by (cases d) auto
  let ?h = "h[x := (h ! x)\<lparr>pdata := v\<rparr>]"
  have step: "load_state_dict (x # m) (v # d') h = load_state_dict m d' ?h"
    by (simp add: load_state_dict_def)
  show ?case
  proof (cases i)
    case 0
    have "x \<notin> set m" using Cons.prems(1) by simp
    then have "load_state_dict m d' ?h ! x = ?h ! x"
      by (rule load_state_dict_other)
    with 0 Cons.prems(3) show ?thesis
      by (simp add: step d)
  next
    case (Suc k)
    have "pdata (load_state_dict m d' ?h ! (m ! k)) = d' ! k"
      using Cons.prems Suc d by (intro Cons.IH) auto
    with Suc show ?thesis
      by (simp add: step d)
  qed
qed


lemma init_heap:
  fixes encoder_init denoiser_init predictor_init :: "real list" and te td tp wp :: bool
  defines "ne \<equiv> length encoder_init" and "nd \<equiv> length denoiser_init"
  defines "h3 \<equiv> (map (\<lambda>v. \<lparr>pdata = v, requires_grad = True\<rparr>) encoder_init
                    @ map (\<lambda>v. \<lparr>pdata = v, requires_grad = True\<rparr>) denoiser_init)
                   @ map (\<lambda>v. \<lparr>pdata = v, requires_grad = True\<rparr>) denoiser_init"
  defines "s \<equiv> DPR_GRPO_init te td tp wp encoder_init denoiser_init predictor_init"
  shows "denoiser s = [ne..<ne + nd]"
    and "reference_model s = [ne + nd..<ne + nd + nd]"
    and "optimizer s = None"
    and "heap s = set_requires_grad [ne + nd..<ne + nd + nd] False h3
                   @ (if wp then map (\<lambda>v. \<lparr>pdata = v, requires_grad = True\<rparr>) predictor_init
                      else [])"
proof -
  have dc: "map ((!) (map (\<lambda>v. \<lparr>pdata = v, requires_grad = True\<rparr>) encoder_init
                    @ map (\<lambda>v. \<lparr>pdata = v, requires_grad = True\<rparr>) denoiser_init))
              [ne..<ne + nd]
           = map (\<lambda>v. \<lparr>pdata = v, requires_grad = True\<rparr>) denoiser_init"
    by (rule nth_equalityI) (simp_all add: ne_def nd_def nth_append)
  show "denoiser s = [ne..<ne + nd]" and "reference_model s = [ne + nd..<ne + nd + nd]"
    and "optimizer s = None"
    and "heap s = set_requires_grad [ne + nd..<ne + nd + nd] False h3
                   @ (if wp then map (\<lambda>v. \<lparr>pdata = v, requires_grad = True\<rparr>) predictor_init
                      else [])"
    using dc
    by (simp_all add: s_def DPR_GRPO_init_def new_module_def deepcopy_def Let_def h3_def
        ne_def nd_def)
qed


lemma init_state_dict:
  "state_dict (reference_model (DPR_GRPO_init te td tp wp encoder_init denoiser_init predictor_init))
     (heap (DPR_GRPO_init te td tp wp encoder_init denoiser_init predictor_init)) = denoiser_init"
  "state_dict (denoiser (DPR_GRPO_init te td tp wp encoder_init denoiser_init predictor_init))
     (heap (DPR_GRPO_init te td tp wp encoder_init denoiser_init predictor_init)) = denoiser_init"
  by (rule nth_equalityI; simp add: state_dict_def init_heap nth_append)+

lemma init_ref_inv:
  "ref_inv (DPR_GRPO_init te td tp wp encoder_init denoiser_init predictor_init)"
proof -
  let ?ne = "length encoder_init" and ?nd = "length denoiser_init"
  have "\<not> requires_grad (heap (DPR_GRPO_init te td tp wp encoder_init denoiser_init predictor_init) ! a)"
    if "a \<in> set [?ne + ?nd..<?ne + ?nd + ?nd]" for a
    using that set_requires_grad_False_member [OF that]
    by (simp add: init_heap nth_append)
  then show ?thesis
    unfolding ref_inv_def by (auto simp: init_heap)
qed

lemma configure_ref_inv:
  assumes "ref_inv s" and "configure_optimizers s = Inr s'"
  shows "ref_inv s'"
    and "state_dict (reference_model s') (heap s') = state_dict (reference_model s) (heap s)"
    and "state_dict (denoiser s') (heap s') = state_dict (denoiser s) (heap s)"
proof -
  define h where "h = heap s'"
  define pred where "pred = (case predictor s of None \<Rightarrow> [] | Some p \<Rightarrow> p)"
  have h: "h = (let h = heap s;
          h = (if \<not> train_encoder s then set_requires_grad (encoder s) False h else h);
          h = (if \<not> train_denoiser s then set_requires_grad (denoiser s) False h else h)
       in (if with_predictor s \<and> \<not> train_predictor s then set_requires_grad pred False h else h))"
    and s': "s' = s\<lparr>heap := h, optimizer := Some (filter (\<lambda>a. requires_grad (h ! a)) (parameters s))\<rparr>"
    using assms(2) unfolding h_def pred_def configure_optimizers_def
    by (auto simp: Let_def split: if_splits)
  have len: "length h = length (heap s)" and pd: "pdata (h ! a) = pdata (heap s ! a)" for a
    unfolding h by (simp_all add: Let_def)
  have mono: "requires_grad (heap s ! a)" if "requires_grad (h ! a)" for a
    using that unfolding h
    by (auto simp: Let_def split: if_splits dest!: set_requires_grad_False_mono)
  show "ref_inv s'"
    using assms(1) mono unfolding ref_inv_def s' by (auto simp: len)
  show "state_dict (reference_model s') (heap s') = state_dict (reference_model s) (heap s)"
    and "state_dict (denoiser s') (heap s') = state_dict (denoiser s) (heap s)"
    unfolding s' by (simp_all add: state_dict_def pd)
qed

lemma step_ref_inv:
  assumes "ref_inv s"
  shows "ref_inv (optimizer_step upd s)"
    and "state_dict (reference_model (optimizer_step upd s)) (heap (optimizer_step upd s))
       = state_dict (reference_model s) (heap s)"
proof -
  show "ref_inv (optimizer_step upd s)"
    using assms unfolding ref_inv_def optimizer_step_def
    by (auto simp: optimizer_foldl split: option.splits)
  show "state_dict (reference_model (optimizer_step upd s)) (heap (optimizer_step upd s))
       = state_dict (reference_model s) (heap s)"
  proof (cases "optimizer s")
    case None
    then show ?thesis by (simp add: optimizer_step_def)
  next
    case (Some ps)
    with assms have "a \<notin> set ps" if "a \<in> set (reference_model s)" for a
      using that unfolding ref_inv_def by auto
    then show ?thesis
      using Some by (simp add: optimizer_step_def state_dict_def optimizer_foldl(3))
  qed
qed

lemma epoch_end_ref_inv:
  assumes "ref_inv s"
  shows "ref_inv (on_train_epoch_end s)"
    and "state_dict (reference_model (on_train_epoch_end s)) (heap (on_train_epoch_end s))
       = state_dict (denoiser s) (heap s)"
    and "state_dict (denoiser (on_train_epoch_end s)) (heap (on_train_epoch_end s))
       = state_dict (denoiser s) (heap s)"
proof -
  show "ref_inv (on_train_epoch_end s)"
    using assms unfolding ref_inv_def on_train_epoch_end_def by simp
  have d: "distinct (reference_model s)"
    and l: "length (state_dict (denoiser s) (heap s)) = length (reference_model s)"
    and r: "\<forall>a\<in>set (reference_model s). a < length (heap s)"
    using assms unfolding ref_inv_def by (simp_all add: state_dict_def)
  show "state_dict (reference_model (on_train_epoch_end s)) (heap (on_train_epoch_end s))
       = state_dict (denoiser s) (heap s)"
  proof (rule nth_equalityI)
    show "length (state_dict (reference_model (on_train_epoch_end s)) (heap (on_train_epoch_end s)))
        = length (state_dict (denoiser s) (heap s))"
      using l by (simp add: state_dict_def on_train_epoch_end_def)
  next
    fix i
    assume "i < length (state_dict (reference_model (on_train_epoch_end s))
                          (heap (on_train_epoch_end s)))"
    then have i: "i < length (reference_model s)"
      by (simp add: state_dict_def on_train_epoch_end_def)
    from load_state_dict_pdata [OF d l r i] i
    show "state_dict (reference_model (on_train_epoch_end s)) (heap (on_train_epoch_end s)) ! i
        = state_dict (denoiser s) (heap s) ! i"
      by (simp add: state_dict_def on_train_epoch_end_def)
  qed
  have "a \<notin> set (reference_model s)" if "a \<in> set (denoiser s)" for a
    using that assms unfolding ref_inv_def by auto
  then show "state_dict (denoiser (on_train_epoch_end s)) (heap (on_train_epoch_end s))
       = state_dict (denoiser s) (heap s)"
    by (simp add: state_dict_def on_train_epoch_end_def load_state_dict_other)
qed

lemma reachable_ref_inv: "reachable s \<Longrightarrow> ref_inv s"
  by (induction rule: reachable.induct)
    (simp_all add: init_ref_inv configure_ref_inv(1) step_ref_inv(1) epoch_end_ref_inv(1))


text \<open>
  Claim C4. At construction the reference policy holds the values of the denoiser, on
  parameters of its own with gradients disabled. In every state of a training run its
  parameters have gradients disabled and are disjoint from the denoiser's; the
  end-of-epoch hook overwrites all its values with the current values of the denoiser and
  leaves the denoiser alone; \<^verbatim>\<open>configure_optimizers\<close> never hands a parameter of the
  reference policy to the optimizer, and an optimizer step leaves its values unchanged.
\<close>

theorem reference_policy_lifecycle:
  assumes "reachable s"
  shows "state_dict (reference_model (DPR_GRPO_init te td tp wp encoder_init denoiser_init predictor_init))
           (heap (DPR_GRPO_init te td tp wp encoder_init denoiser_init predictor_init))
         = denoiser_init
       \<and> (\<forall>a\<in>set (reference_model s). \<not> requires_grad (heap s ! a))
       \<and> set (reference_model s) \<inter> set (denoiser s) = {}
       \<and> state_dict (reference_model (on_train_epoch_end s)) (heap (on_train_epoch_end s))
         = state_dict (denoiser s) (heap s)
       \<and> state_dict (denoiser (on_train_epoch_end s)) (heap (on_train_epoch_end s))
         = state_dict (denoiser s) (heap s)
       \<and> (\<forall>a\<in>set (reference_model (on_train_epoch_end s)).
            \<not> requires_grad (heap (on_train_epoch_end s) ! a))
       \<and> state_dict (reference_model (optimizer_step upd s)) (heap (optimizer_step upd s))
         = state_dict (reference_model s) (heap s)
       \<and> (configure_optimizers s = Inr s' \<longrightarrow>
            state_dict (reference_model s') (heap s') = state_dict (reference_model s) (heap s)
            \<and> (\<forall>ps. optimizer s' = Some ps \<longrightarrow> set ps \<inter> set (reference_model s') = {}))"
proof -
  have inv: "ref_inv s"
    using assms by (rule reachable_ref_inv)
  have inv_end: "ref_inv (on_train_epoch_end s)"
    using inv by (rule epoch_end_ref_inv(1))
  have conf: "state_dict (reference_model s') (heap s') = state_dict (reference_model s) (heap s)
            \<and> (\<forall>ps. optimizer s' = Some ps \<longrightarrow> set ps \<inter> set (reference_model s') = {})"
    if "configure_optimizers s = Inr s'"
    using configure_ref_inv [OF inv that] by (simp add: ref_inv_def)
  show ?thesis
    using inv inv_end conf
    by (simp add: init_state_dict epoch_end_ref_inv(2,3) [OF inv] step_ref_inv(2) [OF inv]
        ref_inv_def)
qed

lemma example_configured:
  "configure_optimizers (DPR_GRPO_init True True True False [1] [2, 3] [])
     = Inr ((DPR_GRPO_init True True True False [1] [2, 3] [])\<lparr>optimizer := Some [0, 1, 2]\<rparr>)"
  by (simp add: configure_optimizers_def DPR_GRPO_init_def new_module_def deepcopy_def
      set_requires_grad_def parameters_def Let_def upt_rec nth_append)


lemma example_run_values:
  "state_dict (denoiser example_run) (heap example_run) = [3, 4]"
  "state_dict (reference_model example_run) (heap example_run) = [2, 3]"
  unfolding example_run_def example_configured sum.sel
  by (simp_all add: optimizer_step_def state_dict_def
      DPR_GRPO_init_def new_module_def deepcopy_def set_requires_grad_def Let_def upt_rec
      nth_append)

theorem reference_policy_lifecycle_witness:
  "reachable example_run
   \<and> state_dict (denoiser example_run) (heap example_run) = [3, 4]
   \<and> state_dict (reference_model example_run) (heap example_run) = [2, 3]
   \<and> state_dict (reference_model (on_train_epoch_end example_run))
         (heap (on_train_epoch_end example_run)) = [3, 4]
   \<and> map (\<lambda>a. requires_grad (heap example_run ! a)) (reference_model example_run)
       = [False, False]"
proof -
  have "reachable ((DPR_GRPO_init True True True False [1] [2, 3] [])\<lparr>optimizer := Some [0, 1, 2]\<rparr>)"
    using r_init example_configured by (rule r_configure)
  then have r: "reachable example_run"
    unfolding example_run_def example_configured sum.sel by (rule r_step)
  note t = reference_policy_lifecycle [OF r]
  have e: "state_dict (reference_model (on_train_epoch_end example_run))
         (heap (on_train_epoch_end example_run)) = [3, 4]"
    using t [THEN conjunct2, THEN conjunct2, THEN conjunct2, THEN conjunct1]
    by (simp only: example_run_values)
  have m: "reference_model example_run = [3, 4]"
    unfolding example_run_def example_configured sum.sel
    by (simp add: optimizer_step_def DPR_GRPO_init_def new_module_def deepcopy_def Let_def
        upt_rec)
  have g: "map (\<lambda>a. requires_grad (heap example_run ! a)) (reference_model example_run)
       = [False, False]"
    using t [THEN conjunct2, THEN conjunct1] by (simp add: m)
  show ?thesis
    by (intro conjI r example_run_values e g)
qed

section \<open>Properties of the training step\<close>

lemma item_PyInt [simp]: "item (PyInt n) = Inl (AttributeError ''item'')"
  by (simp add: item_def)

lemma item_Tensor [simp]: "item (Tensor v) = Inr v"
  by (simp add: item_def)

lemma py_iadd_Tensor: "\<exists>v. py_iadd acc x = Tensor v"
  by (cases acc) (simp_all add: py_iadd_def)

lemma grpo_branch_total_loss:
  assumes "concat rewards \<noteq> []" and "concat ratios \<noteq> []"
  shows "tadd (mean_value rewards (policy_loss rewards ratios))
              (mean_value ratios (kl_penalty beta ratios))
       = Fin (grpo_total_loss beta rewards ratios)"
  using assms by (simp add: mean_value_def grpo_total_loss_def)

lemma DPR_no_branch:
  assumes "\<not> attr_train_denoiser m" and "\<not> attr_train_predictor m"
  shows "DPR_forward_and_get_loss m cmp rnd batch prefix = Inl (AttributeError ''item'')"
  using assms by (simp add: DPR_forward_and_get_loss_def Let_def split_beta)

lemma GRPO_no_branch:
  assumes "\<not> attr_train_denoiser m" and "\<not> attr_train_predictor m"
  shows "GRPO_forward_and_get_loss m cmp rnd batch prefix = Inl (AttributeError ''item'')"
  using assms by (simp add: GRPO_forward_and_get_loss_def Let_def split_beta)

lemma DPR_prediction_loss_invalid:
  assumes "attr_prediction_type m \<notin> {''sample'', ''mean'', ''error''}"
  shows "DPR_prediction_loss m cmp outs noised steps noise fut valid interested gt gt_valid
           prefix total_loss logd = Inl (ValueError ''Invalid prediction type'')"
  using assms by (simp add: DPR_prediction_loss_def Let_def)

lemma DPR_denoiser_branch_invalid:
  assumes "attr_prediction_type m \<notin> {''sample'', ''mean'', ''error''}"
  shows "isl (DPR_denoiser_branch m cmp rnd enc fut valid interested fut41 gt gt_valid
                prefix total_loss logd)"
  unfolding DPR_denoiser_branch_def Let_def
  by (simp add: DPR_prediction_loss_invalid [OF assms] split: sum.splits)


lemma case_sum_isl:
  "isl x \<Longrightarrow> (case x of Inl e \<Rightarrow> Inl e | Inr r \<Rightarrow> f r) = Inl (projl x)"
  by (cases x) simp_all

lemma DPR_forward_denoiser_fails:
  assumes "\<forall>out t x. q_x0 cmp out t x (attr_prediction_type m) = Inl e"
  shows "DPR_forward_denoiser m cmp enc noised t fut = Inl e"
  using assms by (simp add: DPR_forward_denoiser_def Let_def)

lemma DPR_forward_denoiser_returns:
  assumes "\<forall>out t x. \<exists>v. q_x0 cmp out t x (attr_prediction_type m) = Inr v"
    and "agents_assert m enc"
  shows "\<exists>outs. DPR_forward_denoiser m cmp enc noised t fut = Inr outs"
proof -
  from assms(1) obtain v where
    "q_x0 cmp (denoiser_net cmp enc (unnormalize_actions m noised) t fut) t noised
       (attr_prediction_type m) = Inr v"
    by blast
  then show ?thesis
    using assms(2) by (simp add: DPR_forward_denoiser_def Let_def)
qed

lemma DPR_denoiser_branch_q_x0_fails:
  assumes "\<forall>out t x. q_x0 cmp out t x (attr_prediction_type m) = Inl e"
  shows "DPR_denoiser_branch m cmp rnd enc fut valid interested fut41 gt gt_valid
           prefix total_loss logd = Inl e"
  unfolding DPR_denoiser_branch_def Let_def
  by (simp add: DPR_forward_denoiser_fails [OF assms])

lemma DPR_denoiser_branch_dispatch_fails:
  assumes "attr_prediction_type m \<notin> {''sample'', ''mean'', ''error''}"
    and "\<forall>out t x. \<exists>v. q_x0 cmp out t x (attr_prediction_type m) = Inr v"
    and "agents_assert m enc"
  shows "DPR_denoiser_branch m cmp rnd enc fut valid interested fut41 gt gt_valid
           prefix total_loss logd = Inl (ValueError ''Invalid prediction type'')"
proof -
  note ret = DPR_forward_denoiser_returns [OF assms(2,3)]
  define steps where "steps = diffusion_steps (draw_steps rnd) (length (hd gt))"
  define noised where "noised = add_noise cmp gt (draw_noise rnd 0) steps"
  obtain noised' where n': "(if attr_replay_buffer m
               then (case DPR_forward_denoiser m cmp enc gt (view_BA steps) fut41 of
                       Inl e \<Rightarrow> Inl e
                     | Inr denoise_outputs \<Rightarrow>
                         Inr (scheduler_step cmp (out_denoised_actions_normalized denoise_outputs)
                                steps noised (attr_prediction_type m)))
               else Inr noised) = (Inr noised' :: py_error + tensor4)"
    using ret [of gt "view_BA steps" fut41] by (cases "attr_replay_buffer m") auto
  obtain outs where o: "DPR_forward_denoiser m cmp enc noised' (view_BA steps) fut41 = Inr outs"
    using ret by blast
  show ?thesis
    unfolding DPR_denoiser_branch_def Let_def
    unfolding steps_def [symmetric] noised_def [symmetric]
    by (simp only: n' o sum.case DPR_prediction_loss_invalid [OF assms(1)])
qed


lemma example_goal_loss:
  "goal_loss (\<lambda>a c. a) [[[[[1, 0, 0, 0, 0]]]]] [[[0]]] [[[[0, 0, 0, 0, 0], [1, 0, 0, 0, 0]]]]
     [[[False, True]]] [[[[1, 0]]]] [[1]] = (Fin 0, Fin 0)"
  by (simp add: goal_loss_def goal_select_idx_def goal_traj_loss_def goal_score_loss_def
      anchor_dist_def masked_dist_def norm2_def mean_def cross_entropy_def smooth_l1_def
      interest_mask_def count3_def tdiv_def Let_def)

lemma example_predictor_run:
  "DPR_forward_and_get_loss (DPR_settings (example_cfg (Some False) None (Some ''foo'')))
     example_components example_draws example_batch ''train/''
   = Inr (Tensor (Fin 0),
          [''train/goal_loss'' \<mapsto> Fin 0, ''train/score_loss'' \<mapsto> Fin 0,
           ''train/pred_ADE'' \<mapsto> Fin 0, ''train/pred_FDE'' \<mapsto> Fin 0,
           ''train/loss'' \<mapsto> Fin 0])"
  by (simp add: DPR_forward_and_get_loss_def DPR_settings_def example_cfg_def cfg_get_def
      example_components_def example_batch_def predictor_branch_def forward_predictor_def
      agents_assert_def future_valid_def example_goal_loss py_iadd_def Let_def)


lemma example_grpo_predictor_run:
  "GRPO_forward_and_get_loss (DPR_GRPO_settings (example_cfg (Some False) (Some True) None))
     example_components example_draws example_batch ''train/''
   = Inr (Tensor (Fin 0),
          [''train/goal_loss'' \<mapsto> Fin 0, ''train/score_loss'' \<mapsto> Fin 0,
           ''train/pred_ADE'' \<mapsto> Fin 0, ''train/pred_FDE'' \<mapsto> Fin 0,
           ''train/loss'' \<mapsto> Fin 0])"
  by (simp add: GRPO_forward_and_get_loss_def DPR_GRPO_settings_def example_cfg_def cfg_get_def
      example_components_def example_batch_def predictor_branch_def forward_predictor_def
      agents_assert_def future_valid_def example_goal_loss py_iadd_def Let_def)

text \<open>
  Claim C6, as stated, fails: the check of the prediction type sits inside the block that
  runs only when the denoiser is trained. With \<^verbatim>\<open>train_denoiser\<close> disabled, a
  predictor present and the prediction type \<open>''foo''\<close>, the step returns the loss 0.
\<close>

theorem invalid_prediction_type_counterexample:
  "attr_prediction_type (DPR_settings (example_cfg (Some False) None (Some ''foo'')))
     \<notin> {''sample'', ''mean'', ''error''}
   \<and> map_sum id fst
         (DPR_forward_and_get_loss (DPR_settings (example_cfg (Some False) None (Some ''foo'')))
            example_components example_draws example_batch ''train/'')
       = Inr (Tensor (Fin 0))"
  by (simp add: example_predictor_run) (simp add: DPR_settings_def example_cfg_def cfg_get_def)

text \<open>
  Claim C6, amended. When the denoiser is trained and the prediction type is none of
  \<open>''sample''\<close>, \<open>''mean''\<close>, \<open>''error''\<close>, the supervised step ends in an exception and
  produces no loss: the exception of the scheduler's \<^verbatim>\<open>q_x0\<close> when that rejects the
  type, and otherwise, when the forward pass goes through, the
  \<^verbatim>\<open>ValueError('Invalid prediction type')\<close> of the dispatch.
\<close>

theorem invalid_prediction_type_fails:
  assumes "attr_train_denoiser m"
    and "attr_prediction_type m \<notin> {''sample'', ''mean'', ''error''}"
  shows "isl (DPR_forward_and_get_loss m cmp rnd batch prefix)
       \<and> ((\<forall>out t x. q_x0 cmp out t x (attr_prediction_type m) = Inl e) \<longrightarrow>
            DPR_forward_and_get_loss m cmp rnd batch prefix = Inl e)
       \<and> ((\<forall>out t x. \<exists>v. q_x0 cmp out t x (attr_prediction_type m) = Inr v)
            \<and> agents_assert m (encoder_net cmp batch) \<longrightarrow>
            DPR_forward_and_get_loss m cmp rnd batch prefix
              = Inl (ValueError ''Invalid prediction type''))"
proof (intro conjI impI)
  show "isl (DPR_forward_and_get_loss m cmp rnd batch prefix)"
    using assms(1) unfolding DPR_forward_and_get_loss_def Let_def split_beta
    by (simp add: case_sum_isl DPR_denoiser_branch_invalid [OF assms(2)])
next
  assume "\<forall>out t x. q_x0 cmp out t x (attr_prediction_type m) = Inl e"
  then show "DPR_forward_and_get_loss m cmp rnd batch prefix = Inl e"
    using assms(1) unfolding DPR_forward_and_get_loss_def Let_def
    by (simp add: split_beta DPR_denoiser_branch_q_x0_fails)
next
  assume "(\<forall>out t x. \<exists>v. q_x0 cmp out t x (attr_prediction_type m) = Inr v)
            \<and> agents_assert m (encoder_net cmp batch)"
  then show "DPR_forward_and_get_loss m cmp rnd batch prefix
              = Inl (ValueError ''Invalid prediction type'')"
    using assms unfolding DPR_forward_and_get_loss_def Let_def
    by (simp add: split_beta DPR_denoiser_branch_dispatch_fails)
qed

theorem invalid_prediction_type_fails_witness:
  "attr_train_denoiser (DPR_settings (example_cfg None None (Some ''foo'')))
   \<and> attr_prediction_type (DPR_settings (example_cfg None None (Some ''foo'')))
       \<notin> {''sample'', ''mean'', ''error''}
   \<and> DPR_forward_and_get_loss (DPR_settings (example_cfg None None (Some ''foo'')))
         example_components example_draws example_batch ''train/''
       = Inl (ValueError ''Invalid prediction type'')"
proof -
  let ?m = "DPR_settings (example_cfg None None (Some ''foo''))"
  have d: "attr_train_denoiser ?m"
    and p: "attr_prediction_type ?m \<notin> {''sample'', ''mean'', ''error''}"
    by (simp_all add: DPR_settings_def example_cfg_def cfg_get_def)
  have q: "(\<forall>out t x. \<exists>v. q_x0 example_components out t x (attr_prediction_type ?m) = Inr v)
            \<and> agents_assert ?m (encoder_net example_components example_batch)"
    by (simp add: example_components_def agents_assert_def DPR_settings_def example_cfg_def)
  note t = invalid_prediction_type_fails [OF d p, of example_components example_draws
      example_batch "''train/''"]
  from t [THEN conjunct2, THEN conjunct2, THEN mp, OF q] d p show ?thesis
    by (intro conjI)
qed

text \<open>
  Claim C10. In both classes, with the denoiser block and the predictor block disabled the
  variable \<^verbatim>\<open>total_loss\<close> is still the integer 0 when \<^verbatim>\<open>.item()\<close> is called on
  it, and the call ends in an \<^verbatim>\<open>AttributeError\<close>; whenever a call returns, at least
  one of the two blocks ran and the returned loss is a tensor.
\<close>

theorem loss_needs_a_training_branch:
  "(\<not> attr_train_denoiser m \<and> \<not> attr_train_predictor m \<longrightarrow>
      DPR_forward_and_get_loss m cmp rnd batch prefix = Inl (AttributeError ''item'')
      \<and> GRPO_forward_and_get_loss m cmp rnd batch prefix = Inl (AttributeError ''item''))
   \<and> (DPR_forward_and_get_loss m cmp rnd batch prefix = Inr (loss, logd) \<longrightarrow>
        (attr_train_denoiser m \<or> attr_train_predictor m) \<and> (\<exists>v. loss = Tensor v))
   \<and> (GRPO_forward_and_get_loss m cmp rnd batch prefix = Inr (loss', logd') \<longrightarrow>
        (attr_train_denoiser m \<or> attr_train_predictor m) \<and> (\<exists>v. loss' = Tensor v))"
proof (intro conjI impI)
  assume "\<not> attr_train_denoiser m \<and> \<not> attr_train_predictor m"
  then show "DPR_forward_and_get_loss m cmp rnd batch prefix = Inl (AttributeError ''item'')"
    and "GRPO_forward_and_get_loss m cmp rnd batch prefix = Inl (AttributeError ''item'')"
    by (simp_all add: DPR_no_branch GRPO_no_branch)
next
  assume r: "DPR_forward_and_get_loss m cmp rnd batch prefix = Inr (loss, logd)"
  then show "attr_train_denoiser m \<or> attr_train_predictor m"
    using DPR_no_branch [of m cmp rnd batch prefix] by auto
  from r show "\<exists>v. loss = Tensor v"
    unfolding DPR_forward_and_get_loss_def Let_def
    by (cases loss) (auto simp: split_beta split: sum.splits if_splits)
next
  assume r: "GRPO_forward_and_get_loss m cmp rnd batch prefix = Inr (loss', logd')"
  then show "attr_train_denoiser m \<or> attr_train_predictor m"
    using GRPO_no_branch [of m cmp rnd batch prefix] by auto
  from r show "\<exists>v. loss' = Tensor v"
    unfolding GRPO_forward_and_get_loss_def Let_def
    by (cases loss') (auto simp: split_beta split: sum.splits if_splits)
qed


theorem loss_needs_a_training_branch_witness:
  "\<not> attr_train_denoiser (DPR_GRPO_settings (example_cfg (Some False) None None))
   \<and> \<not> attr_train_predictor (DPR_GRPO_settings (example_cfg (Some False) None None))
   \<and> DPR_forward_and_get_loss (DPR_GRPO_settings (example_cfg (Some False) None None))
         example_components example_draws example_batch ''train/''
       = Inl (AttributeError ''item'')
   \<and> GRPO_forward_and_get_loss (DPR_GRPO_settings (example_cfg (Some False) None None))
         example_components example_draws example_batch ''train/''
       = Inl (AttributeError ''item'')
   \<and> map_sum id fst
         (DPR_forward_and_get_loss (DPR_settings (example_cfg (Some False) None (Some ''foo'')))
            example_components example_draws example_batch ''train/'')
       = Inr (Tensor (Fin 0))
   \<and> (attr_train_denoiser (DPR_settings (example_cfg (Some False) None (Some ''foo'')))
        \<or> attr_train_predictor (DPR_settings (example_cfg (Some False) None (Some ''foo''))))
   \<and> map_sum id fst
         (GRPO_forward_and_get_loss (DPR_GRPO_settings (example_cfg (Some False) (Some True) None))
            example_components example_draws example_batch ''train/'')
       = Inr (Tensor (Fin 0))
   \<and> (attr_train_denoiser (DPR_GRPO_settings (example_cfg (Some False) (Some True) None))
        \<or> attr_train_predictor (DPR_GRPO_settings (example_cfg (Some False) (Some True) None)))"
proof -
  let ?m0 = "DPR_GRPO_settings (example_cfg (Some False) None None)"
  let ?m1 = "DPR_settings (example_cfg (Some False) None (Some ''foo''))"
  let ?m2 = "DPR_GRPO_settings (example_cfg (Some False) (Some True) None)"
  have f: "\<not> attr_train_denoiser ?m0 \<and> \<not> attr_train_predictor ?m0"
    by (simp add: DPR_GRPO_settings_def example_cfg_def cfg_get_def)
  note t0 = loss_needs_a_training_branch [of ?m0 example_components example_draws example_batch
      "''train/''", THEN conjunct1, THEN mp, OF f]
  note t1 = loss_needs_a_training_branch [of ?m1 example_components example_draws example_batch
      "''train/''", THEN conjunct2, THEN conjunct1, THEN mp, OF example_predictor_run,
      THEN conjunct1]
  note t2 = loss_needs_a_training_branch [of ?m2 example_components example_draws example_batch
      "''train/''", THEN conjunct2, THEN conjunct2, THEN mp, OF example_grpo_predictor_run,
      THEN conjunct1]
  have r1: "map_sum id fst (DPR_forward_and_get_loss ?m1 example_components example_draws
      example_batch ''train/'') = Inr (Tensor (Fin 0))"
    by (simp add: example_predictor_run)
  have r2: "map_sum id fst (GRPO_forward_and_get_loss ?m2 example_components example_draws
      example_batch ''train/'') = Inr (Tensor (Fin 0))"
    by (simp add: example_grpo_predictor_run)
  from f t0 t1 t2 r1 r2 show ?thesis
    by (intro conjI) (simp_all only: simp_thms)
qed

lemma example_grpo_denoiser_run:
  "map_sum id fst
     (GRPO_forward_and_get_loss (DPR_GRPO_settings (example_cfg None None None))
        example_components example_draws example_batch ''train/'')
   = Inr (Tensor (Fin 0))"
  by (simp add: GRPO_forward_and_get_loss_def DPR_GRPO_settings_def example_cfg_def cfg_get_def
      example_components_def example_batch_def example_draws_def GRPO_denoiser_branch_def
      GRPO_forward_denoiser_def denoiser_call_args_def noised_action_list_def repeat_group_def
      diffusion_steps_def view_BA_def agents_assert_def future_valid_def normalize_actions_def
      unnormalize_actions_def normalize_vec_def unnormalize_vec_def downsample_future_def
      grpo_ratios_def action_differences_def action_diff_def mean_dims_123_def mean3_def
      mul_valid_def mul_valid3_def mse_loss_none_def sq_err3_def zip_with2_def mean_def
      mean_all_def policy_loss_def kl_penalty_def kl_div_def log_ratios_def advantages_def
      group_mean_def clamp_def mean_value_def transpose.simps Let_def upt_rec numeral_2_eq_2)


lemma example_dpr_sample_run:
  "map_sum id fst
     (DPR_forward_and_get_loss (DPR_settings (example_cfg None None None))
        example_components example_draws example_batch ''train/'')
   = Inr (Tensor (Fin 0))"
  by (simp add: DPR_forward_and_get_loss_def DPR_settings_def example_cfg_def cfg_get_def
      example_components_def example_batch_def example_draws_def DPR_denoiser_branch_def
      DPR_forward_denoiser_def DPR_prediction_loss_def predictor_branch_def
      forward_predictor_def example_goal_loss py_iadd_def
      diffusion_steps_def view_BA_def agents_assert_def future_valid_def normalize_actions_def
      unnormalize_actions_def normalize_vec_def unnormalize_vec_def downsample_future_def
      denoise_loss_def map2_3_def mul_mask_def interest_mask_def sum3_def count3_def tdiv_def
      smooth_l1_def atan2_def Let_def numeral_2_eq_2)

end
